theory Spec2Isabelle
  imports Main
begin

section \<open>JavaScript numbers\<close>

text \<open>
  A JavaScript number is an IEEE 754 double. \<open>Finite m e\<close> is the number \<open>m * 2^e\<close>
  (zero, when \<open>m = 0\<close>, is the positive zero); the doubles among these are the numbers
  that need at most 53 significant bits, with \<open>e \<ge> -1074\<close> and a magnitude below
  \<open>2^1024\<close>. The same number has several such pairs (\<open>Finite 2 0\<close> and \<open>Finite 1 1\<close>),
  so numbers are compared by value, with \<open>js_less\<close> and \<open>js_strict_eq\<close>, as \<^verbatim>\<open><\<close> and
  \<^verbatim>\<open>===\<close> compare them. An integer \<open>n\<close> is \<open>js_int n\<close>.
\<close>

datatype js_number = Finite int int | NegZero | PosInfinity | NegInfinity | NaN

definition js_int :: "int \<Rightarrow> js_number" where
  "js_int n = Finite n 0"

text \<open>The number of bits of a natural number: \<open>bit_length n \<le> k\<close> iff \<open>n < 2^k\<close>.\<close>

fun bit_length :: "nat \<Rightarrow> nat" where
  "bit_length n = (if n = 0 then 0 else Suc (bit_length (n div 2)))"

declare bit_length.simps [simp del]

text \<open>\<open>|m * 2^e| \<ge> 2^1024\<close>: the magnitude is beyond the largest double.\<close>

definition overflows :: "int \<Rightarrow> int \<Rightarrow> bool" where
  "overflows m e =
     (if 0 \<le> e then 2 ^ 1024 \<le> \<bar>m\<bar> * 2 ^ nat e
      else 2 ^ 1024 * 2 ^ nat (- e) \<le> \<bar>m\<bar>)"

text \<open>
  Rounding the exact number \<open>m * 2^e\<close> to a double, as every arithmetic operation does:
  to 53 significant bits, to the nearest, ties to the even significand; a result whose
  magnitude reaches \<open>2^1024\<close> is an infinity. (The exact sum of two doubles is a multiple
  of \<open>2^-1074\<close>, so no rounding takes place at the small end.)
\<close>

definition round_double :: "int \<Rightarrow> int \<Rightarrow> js_number" where
  "round_double m e =
     (let k = int (bit_length (nat \<bar>m\<bar>)) - 53;
          q = (if k \<le> 0 then m
               else let q0 = m div 2 ^ nat k;
                        r = m mod 2 ^ nat k;
                        half = 2 ^ nat (k - 1)
                    in if half < r \<or> (r = half \<and> odd q0) then q0 + 1 else q0);
          e' = (if k \<le> 0 then e else e + k)
      in if overflows q e' then (if m < 0 then NegInfinity else PosInfinity)
         else Finite q e')"

text \<open>\<^verbatim>\<open>a + b\<close>\<close>

fun js_add :: "js_number \<Rightarrow> js_number \<Rightarrow> js_number" where
  "js_add NaN b = NaN"
| "js_add a NaN = NaN"
| "js_add PosInfinity NegInfinity = NaN"
| "js_add NegInfinity PosInfinity = NaN"
| "js_add PosInfinity b = PosInfinity"
| "js_add a PosInfinity = PosInfinity"
| "js_add NegInfinity b = NegInfinity"
| "js_add a NegInfinity = NegInfinity"
| "js_add NegZero b = b"
| "js_add a NegZero = a"
| "js_add (Finite m1 e1) (Finite m2 e2) =
     (let e = min e1 e2
      in round_double (m1 * 2 ^ nat (e1 - e) + m2 * 2 ^ nat (e2 - e)) e)"

fun js_neg :: "js_number \<Rightarrow> js_number" where
  "js_neg (Finite m e) = (if m = 0 then NegZero else Finite (- m) e)"
| "js_neg NegZero = Finite 0 0"
| "js_neg PosInfinity = NegInfinity"
| "js_neg NegInfinity = PosInfinity"
| "js_neg NaN = NaN"

text \<open>\<^verbatim>\<open>a - b\<close> is \<open>a + (-b)\<close>.\<close>

definition js_sub :: "js_number \<Rightarrow> js_number \<Rightarrow> js_number" where
  "js_sub a b = js_add a (js_neg b)"

text \<open>\<^verbatim>\<open>Math.abs(a)\<close>\<close>

fun js_abs :: "js_number \<Rightarrow> js_number" where
  "js_abs (Finite m e) = Finite \<bar>m\<bar> e"
| "js_abs NegZero = Finite 0 0"
| "js_abs PosInfinity = PosInfinity"
| "js_abs NegInfinity = PosInfinity"
| "js_abs NaN = NaN"

text \<open>\<^verbatim>\<open>a < b\<close>: false when either side is \<^verbatim>\<open>NaN\<close>; the two zeros are equal.\<close>

fun js_less :: "js_number \<Rightarrow> js_number \<Rightarrow> bool" where
  "js_less NaN b = False"
| "js_less a NaN = False"
| "js_less PosInfinity b = False"
| "js_less a PosInfinity = True"
| "js_less a NegInfinity = False"
| "js_less NegInfinity b = True"
| "js_less NegZero NegZero = False"
| "js_less NegZero (Finite m e) = (0 < m)"
| "js_less (Finite m e) NegZero = (m < 0)"
| "js_less (Finite m1 e1) (Finite m2 e2) =
     (let e = min e1 e2 in m1 * 2 ^ nat (e1 - e) < m2 * 2 ^ nat (e2 - e))"

text \<open>\<^verbatim>\<open>a > b\<close>\<close>

definition js_greater :: "js_number \<Rightarrow> js_number \<Rightarrow> bool" where
  "js_greater a b = js_less b a"

text \<open>\<^verbatim>\<open>a === b\<close> on numbers.\<close>

fun js_strict_eq :: "js_number \<Rightarrow> js_number \<Rightarrow> bool" where
  "js_strict_eq NaN b = False"
| "js_strict_eq a NaN = False"
| "js_strict_eq PosInfinity b = (b = PosInfinity)"
| "js_strict_eq a PosInfinity = False"
| "js_strict_eq NegInfinity b = (b = NegInfinity)"
| "js_strict_eq a NegInfinity = False"
| "js_strict_eq NegZero NegZero = True"
| "js_strict_eq NegZero (Finite m e) = (m = 0)"
| "js_strict_eq (Finite m e) NegZero = (m = 0)"
| "js_strict_eq (Finite m1 e1) (Finite m2 e2) =
     (let e = min e1 e2 in m1 * 2 ^ nat (e1 - e) = m2 * 2 ^ nat (e2 - e))"

section \<open>JavaScript values\<close>

text \<open>
  The type guards of \<^verbatim>\<open>src/types/canvas-guards.ts\<close> inspect nodes at run time
  (\<^verbatim>\<open>typeof\<close>, strict equality with a string literal, \<^verbatim>\<open>!v\<close>), so the fields
  they read are modelled as JavaScript values and not by their declared TypeScript types.
  Strings are byte strings (the UTF-8 encoding of the source's literals). A property that
  is absent from an object reads as \<open>JUndefined\<close>.
\<close>

datatype js_value =
    JUndefined
  | JNull
  | JBool bool
  | JNumber js_number
  | JString string
  | JObject "(string \<times> js_value) list"
  | JFunction

datatype js_type = TUndefined | TObject | TBoolean | TNumber | TString | TFunction

fun typeof :: "js_value \<Rightarrow> js_type" where
  "typeof JUndefined = TUndefined"
| "typeof JNull = TObject"
| "typeof (JBool b) = TBoolean"
| "typeof (JNumber n) = TNumber"
| "typeof (JString s) = TString"
| "typeof (JObject fs) = TObject"
| "typeof JFunction = TFunction"

text \<open>
  Truthiness, as \<^verbatim>\<open>!v\<close> and \<^verbatim>\<open>v && ...\<close> use it: among the numbers, the two zeros
  and \<^verbatim>\<open>NaN\<close> are falsy.
\<close>

fun js_number_truthy :: "js_number \<Rightarrow> bool" where
  "js_number_truthy (Finite m e) = (m \<noteq> 0)"
| "js_number_truthy NegZero = False"
| "js_number_truthy NaN = False"
| "js_number_truthy PosInfinity = True"
| "js_number_truthy NegInfinity = True"

fun truthy :: "js_value \<Rightarrow> bool" where
  "truthy JUndefined = False"
| "truthy JNull = False"
| "truthy (JBool b) = b"
| "truthy (JNumber n) = js_number_truthy n"
| "truthy (JString s) = (s \<noteq> [])"
| "truthy (JObject fs) = True"
| "truthy JFunction = True"

text \<open>Reading a property of a value that is known to be a non-null object.\<close>

fun get_prop :: "js_value \<Rightarrow> string \<Rightarrow> js_value" where
  "get_prop (JObject fs) k = (case map_of fs k of None \<Rightarrow> JUndefined | Some v \<Rightarrow> v)"
| "get_prop v k = JUndefined"

section \<open>Errors thrown at run time\<close>

text \<open>
  A thrown value is a plain \<^verbatim>\<open>Error\<close> (\<^verbatim>\<open>new Error(msg)\<close>), a \<^verbatim>\<open>TypeError\<close> raised by
  the language itself (calling something that is not a function, reading a property of
  \<^verbatim>\<open>undefined\<close>), an error raised inside the host, or an instance of the plugin's own
  error taxonomy (defined below).
\<close>

datatype node_operation = Create | Update | Connect

datatype extraction_stage = NodeContent | ConnectedNodes | ContextBuild

text \<open>
  Modelled from the spec: \<^verbatim>\<open>BaseAIError\<close> of \<^verbatim>\<open>src/utils/errors.ts\<close>, which is not part
  of the sources at hand. Its constructor receives \<^verbatim>\<open>(message, details)\<close>; the tests of the
  subclasses read \<^verbatim>\<open>message\<close>, \<^verbatim>\<open>details\<close> and \<^verbatim>\<open>retryable\<close> back. The \<open>retryable\<close>
  field is the one every subclass initialises itself (\<^verbatim>\<open>readonly retryable = ...\<close>).
\<close>

record base_ai_error =
  message :: string
  details :: "string option"
  retryable :: bool

record node_operation_error = base_ai_error +
  operation :: node_operation
  nodeId :: "string option"

record context_extraction_error = base_ai_error +
  stage :: extraction_stage
  stage_nodeId :: "string option"

datatype canvas_error =
    CanvasNotAvailable base_ai_error
  | NodeOperation node_operation_error
  | ContextExtraction context_extraction_error

datatype js_error =
    JsError string
  | JsTypeError string
  | HostError string
  | Taxonomy canvas_error

section \<open>String literals of the source\<close>

definition msg_node_incomplete :: string where
  \<comment> \<open>createTextNode, console.error (source line 120)\<close>
  "msg_node_incomplete =
    ''[Canvas AI] ''
    @ [CHR 0xE5, CHR 0x88, CHR 0x9B, CHR 0xE5, CHR 0xBB, CHR 0xBA, CHR 0xE7, CHR 0x9A, CHR 0x84,
      CHR 0xE8, CHR 0x8A, CHR 0x82, CHR 0xE7, CHR 0x82, CHR 0xB9, CHR 0xE5, CHR 0xAE, CHR 0x9E,
      CHR 0xE4, CHR 0xBE, CHR 0x8B, CHR 0xE4, CHR 0xB8, CHR 0x8D, CHR 0xE5, CHR 0xAE, CHR 0x8C,
      CHR 0xE6, CHR 0x95, CHR 0xB4, CHR 0xEF, CHR 0xBC, CHR 0x88, CHR 0xE7, CHR 0xBC, CHR 0xBA,
      CHR 0xE5, CHR 0xB0, CHR 0x91]
    @ '' getData''
    @ [CHR 0xEF, CHR 0xBC, CHR 0x89, CHR 0xEF, CHR 0xBC, CHR 0x8C, CHR 0xE5, CHR 0x8F, CHR 0xAF,
      CHR 0xE8, CHR 0x83, CHR 0xBD, CHR 0xE5, CHR 0xAF, CHR 0xBC, CHR 0xE8, CHR 0x87, CHR 0xB4,
      CHR 0xE4, CHR 0xBF, CHR 0x9D, CHR 0xE5, CHR 0xAD, CHR 0x98, CHR 0xE5, CHR 0xA4, CHR 0xB1,
      CHR 0xE8, CHR 0xB4, CHR 0xA5]"

definition msg_edge_created_api :: string where
  \<comment> \<open>createEdge, console.log (source line 246)\<close>
  "msg_edge_created_api =
    ''[Canvas AI] ''
    @ [CHR 0xE8, CHR 0xBF, CHR 0x9E, CHR 0xE7, CHR 0xBA, CHR 0xBF, CHR 0xE5, CHR 0x88, CHR 0x9B,
      CHR 0xE5, CHR 0xBB, CHR 0xBA, CHR 0xE6, CHR 0x88, CHR 0x90, CHR 0xE5, CHR 0x8A, CHR 0x9F]
    @ '' (API)''"

definition msg_edge_failed :: string where
  \<comment> \<open>createEdge, console.error (source line 249)\<close>
  "msg_edge_failed =
    ''[Canvas AI] ''
    @ [CHR 0xE5, CHR 0x88, CHR 0x9B, CHR 0xE5, CHR 0xBB, CHR 0xBA, CHR 0xE8, CHR 0xBE, CHR 0xB9,
      CHR 0xE5, CHR 0xA4, CHR 0xB1, CHR 0xE8, CHR 0xB4, CHR 0xA5]
    @ '':''"

definition msg_try_data_driven :: string where
  \<comment> \<open>createEdge, console.log (source line 252)\<close>
  "msg_try_data_driven =
    ''[Canvas AI] ''
    @ [CHR 0xE5, CHR 0xB0, CHR 0x9D, CHR 0xE8, CHR 0xAF, CHR 0x95, CHR 0xE9, CHR 0x99, CHR 0x8D,
      CHR 0xE7, CHR 0xBA, CHR 0xA7, CHR 0xE4, CHR 0xBD, CHR 0xBF, CHR 0xE7, CHR 0x94, CHR 0xA8]
    @ '' Data-Driven ''
    @ [CHR 0xE6, CHR 0xA8, CHR 0xA1, CHR 0xE5, CHR 0xBC, CHR 0x8F, CHR 0xE5, CHR 0x88, CHR 0x9B,
      CHR 0xE5, CHR 0xBB, CHR 0xBA, CHR 0xE8, CHR 0xBF, CHR 0x9E, CHR 0xE6, CHR 0x8E, CHR 0xA5]"

definition msg_no_canvas_data :: string where
  \<comment> \<open>createEdge, new Error (source line 260)\<close>
  "msg_no_canvas_data =
    [CHR 0xE6, CHR 0x97, CHR 0xA0, CHR 0xE6, CHR 0xB3, CHR 0x95, CHR 0xE8, CHR 0x8E, CHR 0xB7,
      CHR 0xE5, CHR 0x8F, CHR 0x96]
    @ '' Canvas ''
    @ [CHR 0xE6, CHR 0x95, CHR 0xB0, CHR 0xE6, CHR 0x8D, CHR 0xAE]"

definition msg_edge_created_data_driven :: string where
  \<comment> \<open>createEdge, console.log (source line 286)\<close>
  "msg_edge_created_data_driven =
    ''[Canvas AI] ''
    @ [CHR 0xE8, CHR 0xBF, CHR 0x9E, CHR 0xE7, CHR 0xBA, CHR 0xBF, CHR 0xE5, CHR 0x88, CHR 0x9B,
      CHR 0xE5, CHR 0xBB, CHR 0xBA, CHR 0xE6, CHR 0x88, CHR 0x90, CHR 0xE5, CHR 0x8A, CHR 0x9F]
    @ '' (Data-Driven)''"

definition msg_edge_failed_fallback :: string where
  \<comment> \<open>createEdge, console.error (source line 288)\<close>
  "msg_edge_failed_fallback =
    ''[Canvas AI] ''
    @ [CHR 0xE5, CHR 0x88, CHR 0x9B, CHR 0xE5, CHR 0xBB, CHR 0xBA, CHR 0xE8, CHR 0xBE, CHR 0xB9,
      CHR 0xE5, CHR 0xA4, CHR 0xB1, CHR 0xE8, CHR 0xB4, CHR 0xA5]
    @ '' (Fallback):''"

definition msg_cannot_create_connection :: string where
  \<comment> \<open>createEdge, new Notice (source line 289)\<close>
  "msg_cannot_create_connection =
    [CHR 0xE6, CHR 0x97, CHR 0xA0, CHR 0xE6, CHR 0xB3, CHR 0x95, CHR 0xE5, CHR 0x88, CHR 0x9B,
      CHR 0xE5, CHR 0xBB, CHR 0xBA, CHR 0xE8, CHR 0xBF, CHR 0x9E, CHR 0xE6, CHR 0x8E, CHR 0xA5]"

definition msg_open_canvas_first :: string where
  \<comment> \<open>CanvasNotAvailableError, default message\<close>
  "msg_open_canvas_first =
    [CHR 0xE8, CHR 0xAF, CHR 0xB7, CHR 0xE5, CHR 0x85, CHR 0x88, CHR 0xE6, CHR 0x89, CHR 0x93,
      CHR 0xE5, CHR 0xBC, CHR 0x80, CHR 0xE4, CHR 0xB8, CHR 0x80, CHR 0xE4, CHR 0xB8, CHR 0xAA]
    @ '' Canvas ''
    @ [CHR 0xE6, CHR 0x96, CHR 0x87, CHR 0xE4, CHR 0xBB, CHR 0xB6]"

definition msg_default_create :: string where
  \<comment> \<open>NodeOperationError, defaultMessages.create\<close>
  "msg_default_create =
    [CHR 0xE6, CHR 0x97, CHR 0xA0, CHR 0xE6, CHR 0xB3, CHR 0x95, CHR 0xE5, CHR 0x88, CHR 0x9B,
      CHR 0xE5, CHR 0xBB, CHR 0xBA, CHR 0xE8, CHR 0x8A, CHR 0x82, CHR 0xE7, CHR 0x82, CHR 0xB9]"

definition msg_default_update :: string where
  \<comment> \<open>NodeOperationError, defaultMessages.update\<close>
  "msg_default_update =
    [CHR 0xE6, CHR 0x97, CHR 0xA0, CHR 0xE6, CHR 0xB3, CHR 0x95, CHR 0xE6, CHR 0x9B, CHR 0xB4,
      CHR 0xE6, CHR 0x96, CHR 0xB0, CHR 0xE8, CHR 0x8A, CHR 0x82, CHR 0xE7, CHR 0x82, CHR 0xB9,
      CHR 0xE5, CHR 0x86, CHR 0x85, CHR 0xE5, CHR 0xAE, CHR 0xB9]"

definition msg_default_connect :: string where
  \<comment> \<open>NodeOperationError, defaultMessages.connect\<close>
  "msg_default_connect =
    [CHR 0xE6, CHR 0x97, CHR 0xA0, CHR 0xE6, CHR 0xB3, CHR 0x95, CHR 0xE5, CHR 0x88, CHR 0x9B,
      CHR 0xE5, CHR 0xBB, CHR 0xBA, CHR 0xE8, CHR 0x8A, CHR 0x82, CHR 0xE7, CHR 0x82, CHR 0xB9,
      CHR 0xE8, CHR 0xBF, CHR 0x9E, CHR 0xE6, CHR 0x8E, CHR 0xA5]"

definition msg_default_node_content :: string where
  \<comment> \<open>ContextExtractionError, defaultMessages['node-content']\<close>
  "msg_default_node_content =
    [CHR 0xE6, CHR 0x97, CHR 0xA0, CHR 0xE6, CHR 0xB3, CHR 0x95, CHR 0xE6, CHR 0x8F, CHR 0x90,
      CHR 0xE5, CHR 0x8F, CHR 0x96, CHR 0xE8, CHR 0x8A, CHR 0x82, CHR 0xE7, CHR 0x82, CHR 0xB9,
      CHR 0xE5, CHR 0x86, CHR 0x85, CHR 0xE5, CHR 0xAE, CHR 0xB9]"

definition msg_default_connected_nodes :: string where
  \<comment> \<open>ContextExtractionError, defaultMessages['connected-nodes']\<close>
  "msg_default_connected_nodes =
    [CHR 0xE6, CHR 0x97, CHR 0xA0, CHR 0xE6, CHR 0xB3, CHR 0x95, CHR 0xE8, CHR 0xAE, CHR 0xBF,
      CHR 0xE9, CHR 0x97, CHR 0xAE, CHR 0xE8, CHR 0xBF, CHR 0x9E, CHR 0xE6, CHR 0x8E, CHR 0xA5,
      CHR 0xE7, CHR 0x9A, CHR 0x84, CHR 0xE8, CHR 0x8A, CHR 0x82, CHR 0xE7, CHR 0x82, CHR 0xB9]"

definition msg_default_context_build :: string where
  \<comment> \<open>ContextExtractionError, defaultMessages['context-build']\<close>
  "msg_default_context_build =
    [CHR 0xE6, CHR 0x97, CHR 0xA0, CHR 0xE6, CHR 0xB3, CHR 0x95, CHR 0xE6, CHR 0x9E, CHR 0x84,
      CHR 0xE5, CHR 0xBB, CHR 0xBA, CHR 0xE4, CHR 0xB8, CHR 0x8A, CHR 0xE4, CHR 0xB8, CHR 0x8B,
      CHR 0xE6, CHR 0x96, CHR 0x87, CHR 0xE5, CHR 0xAD, CHR 0x97, CHR 0xE7, CHR 0xAC, CHR 0xA6,
      CHR 0xE4, CHR 0xB8, CHR 0xB2]"

section \<open>The error taxonomy (canvas-errors.ts)\<close>

text \<open>
  An optional constructor argument is an \<open>option\<close>: \<open>None\<close> is \<^verbatim>\<open>undefined\<close>. A default
  parameter (\<^verbatim>\<open>message: string = '...'\<close>) replaces \<^verbatim>\<open>undefined\<close> only;
  \<^verbatim>\<open>message || defaultMessages[operation]\<close> also replaces the empty string.
\<close>

definition new_CanvasNotAvailableError :: "string option \<Rightarrow> string option \<Rightarrow> base_ai_error" where
  "new_CanvasNotAvailableError msg dtl =
     \<lparr> message = (case msg of None \<Rightarrow> msg_open_canvas_first | Some m \<Rightarrow> m),
       details = dtl,
       retryable = False \<rparr>"

fun node_operation_defaultMessages :: "node_operation \<Rightarrow> string" where
  "node_operation_defaultMessages Create = msg_default_create"
| "node_operation_defaultMessages Update = msg_default_update"
| "node_operation_defaultMessages Connect = msg_default_connect"

definition new_NodeOperationError ::
  "node_operation \<Rightarrow> string option \<Rightarrow> string option \<Rightarrow> string option \<Rightarrow> node_operation_error" where
  "new_NodeOperationError opn msg nid dtl =
     \<lparr> message = (case msg of
                     None \<Rightarrow> node_operation_defaultMessages opn
                   | Some m \<Rightarrow> if m = [] then node_operation_defaultMessages opn else m),
       details = dtl,
       retryable = True,
       operation = opn,
       nodeId = nid \<rparr>"

fun extraction_stage_defaultMessages :: "extraction_stage \<Rightarrow> string" where
  "extraction_stage_defaultMessages NodeContent = msg_default_node_content"
| "extraction_stage_defaultMessages ConnectedNodes = msg_default_connected_nodes"
| "extraction_stage_defaultMessages ContextBuild = msg_default_context_build"

definition new_ContextExtractionError ::
  "extraction_stage \<Rightarrow> string option \<Rightarrow> string option \<Rightarrow> string option \<Rightarrow> context_extraction_error" where
  "new_ContextExtractionError stg msg nid dtl =
     \<lparr> message = (case msg of
                     None \<Rightarrow> extraction_stage_defaultMessages stg
                   | Some m \<Rightarrow> if m = [] then extraction_stage_defaultMessages stg else m),
       details = dtl,
       retryable = False,
       stage = stg,
       stage_nodeId = nid \<rparr>"

text \<open>The \<open>retryable\<close> flag of any instance of the taxonomy.\<close>

fun canvas_error_retryable :: "canvas_error \<Rightarrow> bool" where
  "canvas_error_retryable (CanvasNotAvailable e) = retryable e"
| "canvas_error_retryable (NodeOperation e) = retryable e"
| "canvas_error_retryable (ContextExtraction e) = retryable e"

section \<open>Nodes and the node guards (canvas-guards.ts)\<close>

text \<open>
  Modelled from the spec: the declarations of \<^verbatim>\<open>src/types/canvas.ts\<close> (\<^verbatim>\<open>CanvasNode\<close> and
  its variants), which are not part of the sources at hand. The fields are the ones the
  guards and the node manager read, and the ones of the specification's data model.
  A node as the plugin meets it: the identity and geometry every node has, the
  discriminator \<^verbatim>\<open>type\<close> and the content fields \<^verbatim>\<open>text\<close>, \<^verbatim>\<open>file\<close>, \<^verbatim>\<open>url\<close> as run-time
  values, and the two capabilities the node manager probes with \<^verbatim>\<open>typeof ... === 'function'\<close>:
  \<^verbatim>\<open>setText\<close> (a method of the host's node object: it acts on the host state \<open>'h\<close> and may
  throw) and \<^verbatim>\<open>getData\<close> (only its presence is ever tested).
  Field names carry the prefix \<open>node_\<close> because \<open>x\<close>, \<open>y\<close> and \<open>id\<close> would capture
  variable names.
\<close>

record 'h canvas_node =
  node_id :: string
  node_type :: js_value
  node_x :: js_number
  node_y :: js_number
  node_width :: js_number
  node_height :: js_number
  node_text :: js_value
  node_file :: js_value
  node_url :: js_value
  node_setText :: "(string \<Rightarrow> 'h \<Rightarrow> (js_error + unit) \<times> 'h) option"
  node_has_getData :: bool

definition isTextNode :: "('h, 'z) canvas_node_scheme \<Rightarrow> bool" where
  "isTextNode node \<longleftrightarrow>
     node_type node = JString ''text''
     \<or> (\<not> truthy (node_type node) \<and> typeof (node_text node) = TString)"

definition isFileNode :: "('h, 'z) canvas_node_scheme \<Rightarrow> bool" where
  "isFileNode node =
     (if node_type node = JString ''file'' then True
      else if truthy (node_type node) then False
      else if typeof (node_file node) = TString then True
      else if truthy (node_file node) \<and> typeof (node_file node) = TObject
              \<and> typeof (get_prop (node_file node) ''path'') = TString then True
      else False)"

definition isLinkNode :: "('h, 'z) canvas_node_scheme \<Rightarrow> bool" where
  "isLinkNode node \<longleftrightarrow>
     node_type node = JString ''link''
     \<or> (\<not> truthy (node_type node) \<and> typeof (node_url node) = TString)"

definition isGroupNode :: "('h, 'z) canvas_node_scheme \<Rightarrow> bool" where
  "isGroupNode node =
     (if node_type node = JString ''group'' then True
      else if truthy (node_type node) then False
      else typeof (node_text node) = TUndefined
           \<and> typeof (node_file node) = TUndefined
           \<and> typeof (node_url node) = TUndefined)"

section \<open>The pure operations of the node manager (canvas-node-manager.ts)\<close>

datatype side = Top | Right | Bottom | Left

record edge_sides =
  fromSide :: side
  toSide :: side

definition determineEdgeSides ::
  "('h, 'z) canvas_node_scheme \<Rightarrow> ('h, 'z) canvas_node_scheme \<Rightarrow> edge_sides" where
  "determineEdgeSides fromNode toNode =
     (let dx = js_sub (node_x toNode) (node_x fromNode);
          dy = js_sub (node_y toNode) (node_y fromNode)
      in if js_greater (js_abs dx) (js_abs dy)
         then (if js_greater dx (js_int 0) then \<lparr> fromSide = Right, toSide = Left \<rparr>
               else \<lparr> fromSide = Left, toSide = Right \<rparr>)
         else (if js_greater dy (js_int 0) then \<lparr> fromSide = Bottom, toSide = Top \<rparr>
               else \<lparr> fromSide = Top, toSide = Bottom \<rparr>))"

record position =
  pos_x :: js_number
  pos_y :: js_number

definition calculateNodePosition ::
  "('h, 'z) canvas_node_scheme \<Rightarrow> js_number \<Rightarrow> js_number \<Rightarrow> position" where
  "calculateNodePosition triggerNode offsetX offsetY =
     (let x = js_add (node_x triggerNode) offsetX;
          y = js_add (js_add (node_y triggerNode) (node_height triggerNode)) offsetY
      in \<lparr> pos_x = x, pos_y = y \<rparr>)"

section \<open>The host canvas and the effects of the node manager\<close>

text \<open>
  Modelled from the spec: the declarations of \<^verbatim>\<open>src/types/canvas.ts\<close> (\<^verbatim>\<open>Canvas\<close>,
  \<^verbatim>\<open>CanvasEdge\<close>, \<^verbatim>\<open>CreateNodeOptions\<close>, the data of \<^verbatim>\<open>getData\<close>), which are not part
  of the sources at hand. The methods are those of the specification's graph host surface
  (\<^verbatim>\<open>createTextNode\<close>, \<^verbatim>\<open>createEdge\<close>, \<^verbatim>\<open>getData\<close>, \<^verbatim>\<open>importData\<close>,
  \<^verbatim>\<open>requestSave\<close>, \<^verbatim>\<open>requestFrame\<close>), with the arguments the node manager passes.
  The canvas is the host's object: the plugin sees it only through its methods, each of
  which acts on the host's own state \<open>'h\<close> and either returns or throws. A method that
  the object does not have is \<open>None\<close> (the property reads as \<^verbatim>\<open>undefined\<close>); calling it
  throws a \<^verbatim>\<open>TypeError\<close>. A result that may be \<^verbatim>\<open>null\<close> or \<^verbatim>\<open>undefined\<close> is an
  \<open>option\<close>.
\<close>

record dimensions =
  dim_width :: js_number
  dim_height :: js_number

record create_node_options =
  opt_pos :: position
  opt_size :: dimensions
  opt_text :: string
  opt_focus :: bool
  opt_save :: bool

record edge_data =
  edge_id :: string
  edge_fromNode :: string
  edge_fromSide :: "side option"
  edge_toNode :: string
  edge_toSide :: "side option"
  edge_label :: "string option"

text \<open>
  The data snapshot \<^verbatim>\<open>{nodes, edges}\<close> of \<^verbatim>\<open>getData\<close> and \<^verbatim>\<open>importData\<close>. The node
  manager passes \<^verbatim>\<open>data.nodes\<close> through untouched, so its type is a parameter;
  \<^verbatim>\<open>data.edges\<close> may be missing (\<^verbatim>\<open>data.edges || []\<close>).
\<close>

record 'n canvas_data =
  nodes :: 'n
  edges :: "edge_data list option"

text \<open>
  The edge object that the host's \<^verbatim>\<open>createEdge\<close> returns: its id, its optional
  \<^verbatim>\<open>setText\<close> method, and what the assignment \<^verbatim>\<open>edge.label = label\<close> does to the host
  state the object lives in.
\<close>

record 'h host_edge =
  hedge_id :: string
  hedge_setText :: "(string \<Rightarrow> 'h \<Rightarrow> (js_error + unit) \<times> 'h) option"
  hedge_assign_label :: "string \<Rightarrow> 'h \<Rightarrow> 'h"

record ('h, 'n) canvas =
  canvas_createTextNode ::
    "(create_node_options \<Rightarrow> 'h \<Rightarrow> (js_error + 'h canvas_node option) \<times> 'h) option"
  canvas_createEdge ::
    "('h canvas_node \<Rightarrow> 'h canvas_node \<Rightarrow> edge_sides \<Rightarrow> 'h
        \<Rightarrow> (js_error + 'h host_edge option) \<times> 'h) option"
  canvas_getData :: "('h \<Rightarrow> (js_error + 'n canvas_data option) \<times> 'h) option"
  canvas_importData :: "('n canvas_data \<Rightarrow> 'h \<Rightarrow> (js_error + unit) \<times> 'h) option"
  canvas_requestSave :: "('h \<Rightarrow> (js_error + unit) \<times> 'h) option"
  canvas_requestFrame :: "('h \<Rightarrow> (js_error + unit) \<times> 'h) option"

text \<open>
  Everything the node manager does to the outside is recorded, in order: the calls of
  host methods (of the canvas, of the workspace and of a view) with their arguments, the console output and the notices shown to the user.
\<close>

datatype log_arg = ArgError js_error | ArgString string | ArgNode string | ArgEdge edge_data

datatype 'n event =
    HostCreateTextNode create_node_options
  | HostCreateEdge string string edge_sides
  | HostRequestSave
  | HostRequestFrame
  | HostGetData
  | HostImportData "'n canvas_data"
  | HostGetActiveViewOfType
  | ViewGetViewType
  | NodeSetText string string
  | EdgeSetText string string
  | EdgeAssignLabel string string
  | ConsoleLog string "log_arg list"
  | ConsoleError string "log_arg list"
  | NoticeShown string

record ('h, 'n) world =
  host :: 'h
  trace :: "'n event list"

text \<open>
  A computation runs on the world and either returns (\<open>Inr\<close>) or throws (\<open>Inl\<close>); the
  world it leaves is kept in both cases, as it is for an exception in the source.
\<close>

type_synonym ('h, 'n, 'a) prog = "('h, 'n) world \<Rightarrow> (js_error + 'a) \<times> ('h, 'n) world"

definition prog_return :: "'a \<Rightarrow> ('h, 'n, 'a) prog" where
  "prog_return a w = (Inr a, w)"

definition prog_throw :: "js_error \<Rightarrow> ('h, 'n, 'a) prog" where
  "prog_throw e w = (Inl e, w)"

definition prog_bind :: "('h, 'n, 'a) prog \<Rightarrow> ('a \<Rightarrow> ('h, 'n, 'b) prog) \<Rightarrow> ('h, 'n, 'b) prog" where
  "prog_bind m f w = (case m w of (Inl e, w') \<Rightarrow> (Inl e, w') | (Inr a, w') \<Rightarrow> f a w')"

definition prog_try :: "('h, 'n, 'a) prog \<Rightarrow> (js_error \<Rightarrow> ('h, 'n, 'a) prog) \<Rightarrow> ('h, 'n, 'a) prog" where
  "prog_try m handler w = (case m w of (Inl e, w') \<Rightarrow> handler e w' | (Inr a, w') \<Rightarrow> (Inr a, w'))"

definition emit :: "'n event \<Rightarrow> ('h, 'n, unit) prog" where
  "emit ev w = (Inr (), w\<lparr> trace := trace w @ [ev] \<rparr>)"

definition console_log :: "string \<Rightarrow> log_arg list \<Rightarrow> ('h, 'n, unit) prog" where
  "console_log msg args = emit (ConsoleLog msg args)"

definition console_error :: "string \<Rightarrow> log_arg list \<Rightarrow> ('h, 'n, unit) prog" where
  "console_error msg args = emit (ConsoleError msg args)"

definition new_Notice :: "string \<Rightarrow> ('h, 'n, unit) prog" where
  "new_Notice msg = emit (NoticeShown msg)"

text \<open>
  Calling a method of a host object: a \<^verbatim>\<open>TypeError\<close> when the method is missing;
  otherwise the call is recorded and the method runs on the host state.
\<close>

definition invoke ::
  "string \<Rightarrow> 'n event \<Rightarrow> ('h \<Rightarrow> (js_error + 'a) \<times> 'h) option \<Rightarrow> ('h, 'n, 'a) prog" where
  "invoke name ev method w =
     (case method of
        None \<Rightarrow> (Inl (JsTypeError (name @ '' is not a function'')), w)
      | Some f \<Rightarrow>
          (case f (host w) of (r, h') \<Rightarrow> (r, \<lparr> host = h', trace = trace w @ [ev] \<rparr>)))"

section \<open>The effectful operations of the node manager (canvas-node-manager.ts)\<close>

text \<open>
  A view of the host workspace is the host's object too: \<^verbatim>\<open>getViewType()\<close> is a method
  that returns the view's type tag, may throw, and may be missing from the object. The
  payload \<open>'c\<close> is whatever the view carries (for a canvas view, the canvas itself).
\<close>

record ('h, 'c) view =
  getViewType :: "('h \<Rightarrow> (js_error + js_value) \<times> 'h) option"
  view_payload :: 'c

text \<open>\<^verbatim>\<open>isCanvasView\<close> of canvas-guards.ts: \<^verbatim>\<open>view.getViewType() === 'canvas'\<close>.\<close>

definition isCanvasView :: "('h, 'c) view \<Rightarrow> ('h, 'n, bool) prog" where
  "isCanvasView v =
     prog_bind (invoke ''view.getViewType'' ViewGetViewType (getViewType v))
       (\<lambda>tag. prog_return (tag = JString ''canvas''))"

text \<open>
  The workspace, as far as the node manager uses it:
  \<^verbatim>\<open>plugin.app.workspace.getActiveViewOfType(View)\<close> yields the active view or \<^verbatim>\<open>null\<close>.
\<close>

record ('h, 'c) workspace =
  getActiveViewOfType :: "('h \<Rightarrow> (js_error + ('h, 'c) view option) \<times> 'h) option"

definition getActiveCanvas :: "('h, 'c) workspace \<Rightarrow> ('h, 'n, ('h, 'c) view option) prog" where
  "getActiveCanvas ws =
     prog_bind
       (invoke ''workspace.getActiveViewOfType'' HostGetActiveViewOfType (getActiveViewOfType ws))
       (\<lambda>activeView.
          case activeView of
            None \<Rightarrow> prog_return None
          | Some v \<Rightarrow>
              prog_bind (isCanvasView v)
                (\<lambda>isCanvas. if isCanvas then prog_return (Some v) else prog_return None))"

definition createTextNode ::
  "('h, 'n) canvas \<Rightarrow> string \<Rightarrow> js_number \<Rightarrow> js_number \<Rightarrow> js_number \<Rightarrow> js_number
     \<Rightarrow> ('h, 'n, 'h canvas_node option) prog" where
  "createTextNode canvas content x y width height =
     (let options = \<lparr> opt_pos = \<lparr> pos_x = x, pos_y = y \<rparr>,
                      opt_size = \<lparr> dim_width = width, dim_height = height \<rparr>,
                      opt_text = content,
                      opt_focus = False,
                      opt_save = False \<rparr>
      in prog_bind
           (invoke ''canvas.createTextNode'' (HostCreateTextNode options)
              (map_option (\<lambda>f. f options) (canvas_createTextNode canvas)))
           (\<lambda>node.
              prog_bind
                (case node of
                   None \<Rightarrow> prog_return ()
                 | Some n \<Rightarrow>
                     if \<not> node_has_getData n
                     then console_error msg_node_incomplete [ArgNode (node_id n)]
                     else prog_return ())
                (\<lambda>_. prog_return node)))"

text \<open>
  \<^verbatim>\<open>updateNodeContent\<close> returns nothing in the source and mutates the node in place; the
  model returns the node as the manager leaves it. On the \<^verbatim>\<open>setText\<close> path the manager
  itself assigns nothing: what the method does is the host's.
\<close>

definition updateNodeContent ::
  "('h, 'n) canvas \<Rightarrow> 'h canvas_node \<Rightarrow> string \<Rightarrow> ('h, 'n, 'h canvas_node) prog" where
  "updateNodeContent canvas node content =
     prog_bind
       (case node_setText node of
          Some setText \<Rightarrow>
            prog_bind
              (invoke ''node.setText'' (NodeSetText (node_id node) content) (Some (setText content)))
              (\<lambda>_. prog_return node)
        | None \<Rightarrow> prog_return (node\<lparr> node_text := JString content \<rparr>))
       (\<lambda>node'.
          prog_bind
            (case canvas_requestFrame canvas of
               Some requestFrame \<Rightarrow> invoke ''canvas.requestFrame'' HostRequestFrame (Some requestFrame)
             | None \<Rightarrow> prog_return ())
            (\<lambda>_. prog_return node'))"

text \<open>
  The clock and the random source that the generated edge id reads: \<^verbatim>\<open>Date.now()\<close> as a
  natural number, and the text of \<^verbatim>\<open>Math.random().toString(36)\<close>.
\<close>

record env =
  date_now :: nat
  math_random_base36 :: string

fun show_nat :: "nat \<Rightarrow> string" where
  "show_nat n =
     (if n < 10 then [''0123456789'' ! n]
      else show_nat (n div 10) @ [''0123456789'' ! (n mod 10)])"

declare show_nat.simps [simp del]

definition substr :: "nat \<Rightarrow> nat \<Rightarrow> string \<Rightarrow> string" where
  "substr start len s = take len (drop start s)"

definition new_edge_id :: "env \<Rightarrow> string" where
  "new_edge_id e =
     ''edge-'' @ show_nat (date_now e) @ ''-'' @ substr 2 9 (math_random_base36 e)"

text \<open>\<^verbatim>\<open>if (label)\<close>: the optional label is present and not the empty string.\<close>

definition label_truthy :: "string option \<Rightarrow> bool" where
  "label_truthy label = (case label of None \<Rightarrow> False | Some l \<Rightarrow> l \<noteq> [])"

text \<open>\<^verbatim>\<open>label || ''\<close>\<close>

definition label_or_empty :: "string option \<Rightarrow> string" where
  "label_or_empty label = (case label of None \<Rightarrow> [] | Some l \<Rightarrow> l)"

text \<open>
  Setting the label of the edge that the host returned: reading \<^verbatim>\<open>edgeAny.setText\<close> of
  an edge that is \<^verbatim>\<open>undefined\<close> throws.
\<close>

definition set_edge_label :: "'h host_edge option \<Rightarrow> string \<Rightarrow> ('h, 'n, unit) prog" where
  "set_edge_label edge label =
     (case edge of
        None \<Rightarrow> prog_throw (JsTypeError ''Cannot read properties of undefined'')
      | Some e \<Rightarrow>
          (case hedge_setText e of
             Some setText \<Rightarrow>
               invoke ''edge.setText'' (EdgeSetText (hedge_id e) label) (Some (setText label))
           | None \<Rightarrow>
               (\<lambda>w. (Inr (), \<lparr> host = hedge_assign_label e label (host w),
                               trace = trace w @ [EdgeAssignLabel (hedge_id e) label] \<rparr>))))"

text \<open>The body of the outer \<^verbatim>\<open>try\<close>: the host's own edge creation.\<close>

definition createEdge_direct ::
  "('h, 'n) canvas \<Rightarrow> 'h canvas_node \<Rightarrow> 'h canvas_node \<Rightarrow> string option \<Rightarrow> ('h, 'n, unit) prog" where
  "createEdge_direct canvas fromNode toNode label =
     (let sides = determineEdgeSides fromNode toNode
      in prog_bind
           (invoke ''canvas.createEdge'' (HostCreateEdge (node_id fromNode) (node_id toNode) sides)
              (map_option (\<lambda>f. f fromNode toNode sides) (canvas_createEdge canvas)))
           (\<lambda>edge.
              prog_bind
                (if label_truthy label then set_edge_label edge (label_or_empty label)
                 else prog_return ())
                (\<lambda>_.
                   prog_bind
                     (invoke ''canvas.requestSave'' HostRequestSave (canvas_requestSave canvas))
                     (\<lambda>_.
                        case edge of
                          None \<Rightarrow> prog_throw (JsTypeError ''Cannot read properties of undefined'')
                        | Some e \<Rightarrow> console_log msg_edge_created_api [ArgString (hedge_id e)]))))"

text \<open>The record that the fallback appends, and the data it injects.\<close>

definition new_edge :: "env \<Rightarrow> 'h canvas_node \<Rightarrow> 'h canvas_node \<Rightarrow> string option \<Rightarrow> edge_data" where
  "new_edge e fromNode toNode label =
     (let edgeId = new_edge_id e;
          sides = determineEdgeSides fromNode toNode
      in \<lparr> edge_id = edgeId,
           edge_fromNode = node_id fromNode,
           edge_fromSide = Some (fromSide sides),
           edge_toNode = node_id toNode,
           edge_toSide = Some (toSide sides),
           edge_label = Some (label_or_empty label) \<rparr>)"

definition new_data :: "'n canvas_data \<Rightarrow> edge_data \<Rightarrow> 'n canvas_data" where
  "new_data d newEdge =
     \<lparr> nodes = nodes d,
       edges = Some ((case edges d of None \<Rightarrow> [] | Some es \<Rightarrow> es) @ [newEdge]) \<rparr>"

text \<open>The body of the inner \<^verbatim>\<open>try\<close>: the data-driven fallback.\<close>

definition createEdge_fallback ::
  "env \<Rightarrow> ('h, 'n) canvas \<Rightarrow> 'h canvas_node \<Rightarrow> 'h canvas_node \<Rightarrow> string option \<Rightarrow> ('h, 'n, unit) prog" where
  "createEdge_fallback e canvas fromNode toNode label =
     prog_bind (console_log msg_try_data_driven [])
       (\<lambda>_.
          prog_bind (invoke ''canvas.getData'' HostGetData (canvas_getData canvas))
            (\<lambda>data.
               case data of
                 None \<Rightarrow> prog_throw (JsError msg_no_canvas_data)
               | Some d \<Rightarrow>
                   (let newEdge = new_edge e fromNode toNode label;
                        newData = new_data d newEdge
                    in prog_bind
                         (invoke ''canvas.importData'' (HostImportData newData)
                            (map_option (\<lambda>f. f newData) (canvas_importData canvas)))
                         (\<lambda>_.
                            prog_bind
                              (invoke ''canvas.requestFrame'' HostRequestFrame (canvas_requestFrame canvas))
                              (\<lambda>_. console_log msg_edge_created_data_driven [ArgEdge newEdge])))))"

definition createEdge ::
  "env \<Rightarrow> ('h, 'n) canvas \<Rightarrow> 'h canvas_node \<Rightarrow> 'h canvas_node \<Rightarrow> string option \<Rightarrow> ('h, 'n, unit) prog" where
  "createEdge e canvas fromNode toNode label =
     prog_try (createEdge_direct canvas fromNode toNode label)
       (\<lambda>error.
          prog_bind (console_error msg_edge_failed [ArgError error])
            (\<lambda>_.
               prog_try (createEdge_fallback e canvas fromNode toNode label)
                 (\<lambda>fallbackError.
                    prog_bind (console_error msg_edge_failed_fallback [ArgError fallbackError])
                      (\<lambda>_. new_Notice msg_cannot_create_connection))))"

section \<open>What a trace reports\<close>

text \<open>
  An event reports a node-operation failure through the taxonomy when it hands an instance
  of \<^verbatim>\<open>NodeOperationError\<close> to the console.
\<close>

definition reports_node_operation_failure :: "'n event \<Rightarrow> bool" where
  "reports_node_operation_failure ev =
     (case ev of
        ConsoleError msg args \<Rightarrow>
          list_ex (\<lambda>a. case a of ArgError (Taxonomy (NodeOperation err)) \<Rightarrow> True | _ \<Rightarrow> False) args
      | ConsoleLog msg args \<Rightarrow>
          list_ex (\<lambda>a. case a of ArgError (Taxonomy (NodeOperation err)) \<Rightarrow> True | _ \<Rightarrow> False) args
      | _ \<Rightarrow> False)"

section \<open>Concrete nodes and canvases\<close>

text \<open>
  The plain node objects and the mock canvases of the repository's tests
  (\<^verbatim>\<open>__tests__/canvas/canvas-node-manager.test.ts\<close>), and variations of them. The host
  state of a mock canvas is its data; the nodes of the data are a list of node ids.
\<close>

definition text_node_of ::
  "string \<Rightarrow> js_number \<Rightarrow> js_number \<Rightarrow> js_number \<Rightarrow> js_number \<Rightarrow> string \<Rightarrow> 'h canvas_node" where
  "text_node_of ident x y width height content =
     \<lparr> node_id = ident, node_type = JString ''text'',
       node_x = x, node_y = y, node_width = width, node_height = height,
       node_text = JString content, node_file = JUndefined, node_url = JUndefined,
       node_setText = None, node_has_getData = False \<rparr>"

text \<open>The same with integer coordinates, as the tests write them.\<close>

definition text_node :: "string \<Rightarrow> int \<Rightarrow> int \<Rightarrow> int \<Rightarrow> int \<Rightarrow> string \<Rightarrow> 'h canvas_node" where
  "text_node ident x y width height content =
     text_node_of ident (js_int x) (js_int y) (js_int width) (js_int height) content"

text \<open>A node as the host keeps it in memory: no discriminator, only content fields.\<close>

definition untyped_node :: "js_value \<Rightarrow> js_value \<Rightarrow> js_value \<Rightarrow> 'h canvas_node" where
  "untyped_node txt fl url =
     \<lparr> node_id = ''n'', node_type = JUndefined,
       node_x = js_int 0, node_y = js_int 0, node_width = js_int 100, node_height = js_int 100,
       node_text = txt, node_file = fl, node_url = url,
       node_setText = None, node_has_getData = False \<rparr>"

type_synonym mock_state = "string list canvas_data"

definition empty_data :: mock_state where
  "empty_data = \<lparr> nodes = [], edges = Some [] \<rparr>"

definition initial_world :: "(mock_state, string list) world" where
  "initial_world = \<lparr> host = empty_data, trace = [] \<rparr>"

definition example_env :: env where
  "example_env = \<lparr> date_now = 1700000000000, math_random_base36 = ''0.4fzyo82mvyr'' \<rparr>"

text \<open>
  \<^verbatim>\<open>createMockCanvas\<close> of the node manager's tests: \<^verbatim>\<open>createTextNode\<close> returns a plain
  text node, \<^verbatim>\<open>requestSave\<close> and \<^verbatim>\<open>requestFrame\<close> do nothing, and the canvas has no
  \<^verbatim>\<open>createEdge\<close>, \<^verbatim>\<open>getData\<close> or \<^verbatim>\<open>importData\<close>.
\<close>

definition mock_canvas :: "(mock_state, string list) canvas" where
  "mock_canvas =
     \<lparr> canvas_createTextNode =
         Some (\<lambda>options h.
           (Inr (Some (text_node_of ''node-1''
                         (pos_x (opt_pos options)) (pos_y (opt_pos options))
                         (dim_width (opt_size options)) (dim_height (opt_size options))
                         (opt_text options))), h)),
       canvas_createEdge = None,
       canvas_getData = None,
       canvas_importData = None,
       canvas_requestSave = Some (\<lambda>h. (Inr (), h)),
       canvas_requestFrame = Some (\<lambda>h. (Inr (), h)) \<rparr>"

text \<open>
  The mock canvas of \<^verbatim>\<open>__tests__/canvas/canvas-properties.test.ts\<close>: it has
  \<^verbatim>\<open>createTextNode\<close>, \<^verbatim>\<open>createEdge\<close> and \<^verbatim>\<open>requestSave\<close>, and no \<^verbatim>\<open>requestFrame\<close>.
\<close>

definition frameless_canvas :: "(mock_state, string list) canvas" where
  "frameless_canvas =
     mock_canvas \<lparr> canvas_createEdge := Some (\<lambda>fromNode toNode sides h. (Inr None, h)),
                   canvas_requestFrame := None \<rparr>"

text \<open>
  A canvas whose own \<^verbatim>\<open>createEdge\<close> throws and whose data can be read and injected:
  \<^verbatim>\<open>getData\<close> returns the data, \<^verbatim>\<open>importData\<close> replaces it.
\<close>

definition splicing_canvas :: "(mock_state, string list) canvas" where
  "splicing_canvas =
     mock_canvas \<lparr> canvas_createEdge :=
                     Some (\<lambda>fromNode toNode sides h. (Inl (HostError ''createEdge failed''), h)),
                   canvas_getData := Some (\<lambda>h. (Inr (Some h), h)),
                   canvas_importData := Some (\<lambda>d h. (Inr (), d)) \<rparr>"

text \<open>The same canvas with an \<^verbatim>\<open>importData\<close> that throws.\<close>

definition import_failing_canvas :: "(mock_state, string list) canvas" where
  "import_failing_canvas =
     splicing_canvas \<lparr> canvas_importData :=
                         Some (\<lambda>d h. (Inl (HostError ''importData failed''), h)) \<rparr>"

text \<open>The same canvas with a \<^verbatim>\<open>getData\<close> that returns \<^verbatim>\<open>null\<close>.\<close>

definition null_data_canvas :: "(mock_state, string list) canvas" where
  "null_data_canvas = splicing_canvas \<lparr> canvas_getData := Some (\<lambda>h. (Inr None, h)) \<rparr>"

text \<open>
  A canvas whose own \<^verbatim>\<open>createEdge\<close> works (the host adds the edge to its data and
  returns it) and whose \<^verbatim>\<open>requestSave\<close> and \<^verbatim>\<open>getData\<close> crash, the hazard that the
  comments of \<^verbatim>\<open>updateNodeContent\<close> describe.
\<close>

definition host_made_edge :: "string \<Rightarrow> string \<Rightarrow> edge_sides \<Rightarrow> edge_data" where
  "host_made_edge f t sides =
     \<lparr> edge_id = ''host-edge-1'', edge_fromNode = f, edge_fromSide = Some (fromSide sides),
       edge_toNode = t, edge_toSide = Some (toSide sides), edge_label = None \<rparr>"

definition crashing_save_canvas :: "(mock_state, string list) canvas" where
  "crashing_save_canvas =
     mock_canvas \<lparr> canvas_createEdge :=
                     Some (\<lambda>fromNode toNode sides h.
                       (Inr (Some \<lparr> hedge_id = ''host-edge-1'', hedge_setText = None,
                                    hedge_assign_label = (\<lambda>l h. h) \<rparr>),
                        new_data h (host_made_edge (node_id fromNode) (node_id toNode) sides))),
                   canvas_requestSave := Some (\<lambda>h. (Inl (HostError ''getData is not a function''), h)),
                   canvas_getData := Some (\<lambda>h. (Inl (HostError ''getData is not a function''), h)) \<rparr>"

text \<open>The two nodes that the tests of \<^verbatim>\<open>createEdge\<close> connect.\<close>

definition example_from_node :: "mock_state canvas_node" where
  "example_from_node = text_node ''node-1'' 0 0 100 100 ''From node''"

definition example_to_node :: "mock_state canvas_node" where
  "example_to_node = text_node ''node-2'' 0 150 100 100 ''To node''"

text \<open>
  A node object of the host itself: it has a \<^verbatim>\<open>setText\<close> method and a \<^verbatim>\<open>getData\<close>
  method.
\<close>

definition host_text_node :: "string \<Rightarrow> int \<Rightarrow> int \<Rightarrow> int \<Rightarrow> int \<Rightarrow> string \<Rightarrow> mock_state canvas_node" where
  "host_text_node ident x y width height content =
     (text_node ident x y width height content)
       \<lparr> node_setText := Some (\<lambda>c h. (Inr (), h)), node_has_getData := True \<rparr>"

text \<open>A node whose discriminator is present and is the empty string.\<close>

definition empty_type_node :: "mock_state canvas_node" where
  "empty_type_node =
     (untyped_node (JString ''hello'') JUndefined JUndefined) \<lparr> node_type := JString [] \<rparr>"

text \<open>Plain text nodes at a given origin, and the trigger node of the specification's scenario.\<close>

definition node_at :: "string \<Rightarrow> int \<Rightarrow> int \<Rightarrow> mock_state canvas_node" where
  "node_at ident x y = text_node ident x y 100 100 []"

definition trigger_node :: "mock_state canvas_node" where
  "trigger_node = text_node ''trigger'' 100 100 200 100 []"

text \<open>
  A node far from the origin, at \<open>y = 2^53 = 9007199254740992\<close>, one unit high, and a
  node at \<open>(2^53, 2^53)\<close>.
\<close>

definition far_node :: "mock_state canvas_node" where
  "far_node = text_node ''far'' 0 9007199254740992 100 1 []"


text \<open>
  Workspaces: one whose active view is a canvas view, one whose active view is a markdown
  view, one without an active view (the \<^verbatim>\<open>jest.fn()\<close> of the tests' mock plugin returns
  \<^verbatim>\<open>undefined\<close>), one whose \<^verbatim>\<open>getActiveViewOfType\<close> throws, and one whose active view
  has no \<^verbatim>\<open>getViewType\<close> method.
\<close>

definition view_of_type :: "string \<Rightarrow> (mock_state, unit) view" where
  "view_of_type tag = \<lparr> getViewType = Some (\<lambda>h. (Inr (JString tag), h)), view_payload = () \<rparr>"

definition workspace_with :: "(mock_state, unit) view option \<Rightarrow> (mock_state, unit) workspace" where
  "workspace_with v = \<lparr> getActiveViewOfType = Some (\<lambda>h. (Inr v, h)) \<rparr>"

definition throwing_workspace :: "(mock_state, unit) workspace" where
  "throwing_workspace =
     \<lparr> getActiveViewOfType = Some (\<lambda>h. (Inl (HostError ''workspace is not ready''), h)) \<rparr>"

definition view_without_type :: "(mock_state, unit) view" where
  "view_without_type = \<lparr> getViewType = None, view_payload = () \<rparr>"

section \<open>Auxiliary facts\<close>

lemmas prog_defs = prog_bind_def prog_return_def prog_throw_def prog_try_def emit_def
  console_log_def console_error_def new_Notice_def invoke_def

lemmas example_defs = example_from_node_def example_to_node_def text_node_def text_node_of_def
  initial_world_def empty_data_def

lemma bit_length_le: "n < 2 ^ k \<Longrightarrow> bit_length n \<le> k"
proof (induction k arbitrary: n)
  case 0
  then show ?case by (simp add: bit_length.simps)
next
  case (Suc k)
  show ?case
  proof (cases "n = 0")
    case True
    then show ?thesis by (simp add: bit_length.simps)
  next
    case False
    from Suc.prems have "n div 2 < 2 ^ k" by simp
    then have "bit_length (n div 2) \<le> k" by (rule Suc.IH)
    with False show ?thesis by (subst bit_length.simps) simp
  qed
qed

lemma round_double_safe: "\<bar>m\<bar> < 2 ^ 53 \<Longrightarrow> round_double m 0 = Finite m 0"
proof -
  assume small: "\<bar>m\<bar> < 2 ^ 53"
  then have "nat \<bar>m\<bar> < 2 ^ 53"
    by (simp add: nat_less_iff)
  then have "bit_length (nat \<bar>m\<bar>) \<le> 53" by (rule bit_length_le)
  moreover have "\<not> overflows m 0"
  proof -
    have "(2::int) ^ 53 < 2 ^ 1024" by (rule power_strict_increasing) simp_all
    with small show ?thesis by (simp add: overflows_def)
  qed
  ultimately show ?thesis by (simp add: round_double_def Let_def)
qed

text \<open>
  Two sums of doubles as every engine computes them: \<^verbatim>\<open>0.1 + 0.2\<close> is
  \<^verbatim>\<open>0.30000000000000004\<close> (a tie, rounded to the even significand), and the largest
  double added to itself is \<^verbatim>\<open>Infinity\<close>.
\<close>

lemma js_add_tenth_fifth:
  "js_add (Finite 7205759403792794 (- 56)) (Finite 7205759403792794 (- 55))
     = Finite 5404319552844596 (- 54)"
  by (simp add: round_double_def overflows_def bit_length.simps)

lemma js_add_overflow:
  "js_add (Finite 9007199254740991 971) (Finite 9007199254740991 971) = PosInfinity"
  by (simp add: round_double_def overflows_def bit_length.simps)

lemma js_add_int: "\<bar>a + b\<bar> < 2 ^ 53 \<Longrightarrow> js_add (js_int a) (js_int b) = js_int (a + b)"
  by (simp add: js_int_def round_double_safe)

lemma js_sub_int: "\<bar>a - b\<bar> < 2 ^ 53 \<Longrightarrow> js_sub (js_int a) (js_int b) = js_int (a - b)"
  by (simp add: js_sub_def js_int_def round_double_safe)

lemma js_abs_int: "js_abs (js_int a) = js_int \<bar>a\<bar>"
  by (simp add: js_int_def)

lemma js_less_int: "js_less (js_int a) (js_int b) \<longleftrightarrow> a < b"
  by (simp add: js_int_def)

lemma js_greater_int: "js_greater (js_int a) (js_int b) \<longleftrightarrow> b < a"
  by (simp add: js_greater_def js_less_int)



lemma determineEdgeSides_int:
  assumes "node_x fromNode = js_int x1" "node_y fromNode = js_int y1"
      and "node_x toNode = js_int x2" "node_y toNode = js_int y2"
      and "\<bar>x2 - x1\<bar> < 2 ^ 53" "\<bar>y2 - y1\<bar> < 2 ^ 53"
  shows "determineEdgeSides fromNode toNode =
           (if \<bar>x2 - x1\<bar> > \<bar>y2 - y1\<bar>
            then (if x2 - x1 > 0 then \<lparr> fromSide = Right, toSide = Left \<rparr>
                  else \<lparr> fromSide = Left, toSide = Right \<rparr>)
            else (if y2 - y1 > 0 then \<lparr> fromSide = Bottom, toSide = Top \<rparr>
                  else \<lparr> fromSide = Top, toSide = Bottom \<rparr>))"
  using assms
  by (simp add: determineEdgeSides_def js_sub_int js_abs_int js_greater_int)

lemma bit_length_far: "bit_length 9007199254740993 = 54"
  by (simp add: bit_length.simps)

lemma far_sum: "js_add (js_int 9007199254740992) (js_int 1) = Finite 4503599627370496 1"
  by (simp add: js_int_def round_double_def bit_length_far overflows_def)

lemma far_sum_zero:
  "js_add (Finite 4503599627370496 1) (js_int 0) = Finite 4503599627370496 1"
  by (simp add: js_int_def round_double_def overflows_def bit_length.simps)


lemma new_edge_id_prefix: "take 5 (new_edge_id e) = ''edge-''"
  by (simp add: new_edge_id_def)

lemma show_nat_example: "show_nat 1700000000000 = ''1700000000000''"
  by (simp add: show_nat.simps)

lemma example_edge_id: "new_edge_id example_env = ''edge-1700000000000-4fzyo82mv''"
  by (simp add: new_edge_id_def example_env_def substr_def show_nat_example)

lemma example_sides:
  "determineEdgeSides example_from_node example_to_node = \<lparr> fromSide = Bottom, toSide = Top \<rparr>"
  by (simp add: determineEdgeSides_int [where ?x1.0 = 0 and ?y1.0 = 0 and ?x2.0 = 0 and ?y2.0 = 150]
        example_defs)

lemma example_new_edge:
  "new_edge example_env example_from_node example_to_node None =
     \<lparr> edge_id = ''edge-1700000000000-4fzyo82mv'', edge_fromNode = ''node-1'',
       edge_fromSide = Some Bottom, edge_toNode = ''node-2'', edge_toSide = Some Top,
       edge_label = Some [] \<rparr>"
  by (simp add: new_edge_def example_edge_id example_sides label_or_empty_def)
    (simp add: example_defs)

lemma example_node_ids:
  "node_id example_from_node = ''node-1''" "node_id example_to_node = ''node-2''"
  by (simp_all add: example_defs)

lemma createEdge_returns: "fst (createEdge e canvas fromNode toNode label w) = Inr ()"
  by (auto simp: createEdge_def prog_defs split: sum.splits prod.splits)

lemma example_direct_throws:
  "createEdge_direct splicing_canvas example_from_node example_to_node None initial_world =
     (Inl (HostError ''createEdge failed''),
      \<lparr> host = empty_data,
        trace = [HostCreateEdge ''node-1'' ''node-2'' \<lparr> fromSide = Bottom, toSide = Top \<rparr>] \<rparr>)"
  by (simp add: createEdge_direct_def example_sides prog_defs splicing_canvas_def mock_canvas_def)
    (simp add: example_defs)

section \<open>The claims\<close>

text \<open>
  C1 (as amended). When the direct path of \<^verbatim>\<open>createEdge\<close> throws, the data snapshot is
  available, the host's \<^verbatim>\<open>importData\<close> returns normally and the canvas has a
  \<^verbatim>\<open>requestFrame\<close> function, the fallback runs to the end of the splice: after the
  console output it calls \<^verbatim>\<open>getData\<close>, then \<^verbatim>\<open>importData\<close> with the snapshot's nodes
  unchanged and the snapshot's edges followed by exactly one new record, then
  \<^verbatim>\<open>requestFrame\<close>, and nothing else of the host (no \<^verbatim>\<open>requestSave\<close>). The new record's id
  starts with \<^verbatim>\<open>edge-\<close>, and its \<^verbatim>\<open>fromNode\<close> and \<^verbatim>\<open>toNode\<close> are the ids of the two nodes.
  \<^verbatim>\<open>createEdge\<close> returns normally; when \<^verbatim>\<open>requestFrame\<close> itself throws, the failure is
  logged and a notice is shown.
\<close>

theorem createEdge_fallback_splice:
  fixes canvas :: "('h, 'n) canvas"
  assumes direct: "createEdge_direct canvas fromNode toNode label w = (Inl err, w1)"
      and snapshot: "canvas_getData canvas = Some gd" "gd (host w1) = (Inr (Some d), h2)"
      and inject: "canvas_importData canvas = Some imp"
                  "imp (new_data d (new_edge e fromNode toNode label)) h2 = (Inr (), h3)"
      and frame: "canvas_requestFrame canvas = Some rf" "rf h3 = (r, h4)"
  shows "createEdge e canvas fromNode toNode label w =
           (Inr (),
            \<lparr> host = h4,
              trace = trace w1
                @ [ConsoleError msg_edge_failed [ArgError err],
                   ConsoleLog msg_try_data_driven [],
                   HostGetData,
                   HostImportData (new_data d (new_edge e fromNode toNode label)),
                   HostRequestFrame]
                @ (case r of
                     Inr u \<Rightarrow> [ConsoleLog msg_edge_created_data_driven
                                 [ArgEdge (new_edge e fromNode toNode label)]]
                   | Inl err2 \<Rightarrow> [ConsoleError msg_edge_failed_fallback [ArgError err2],
                                  NoticeShown msg_cannot_create_connection]) \<rparr>)
         \<and> nodes (new_data d (new_edge e fromNode toNode label)) = nodes d
         \<and> edges (new_data d (new_edge e fromNode toNode label))
             = Some ((case edges d of None \<Rightarrow> [] | Some es \<Rightarrow> es)
                     @ [new_edge e fromNode toNode label])
         \<and> edge_id (new_edge e fromNode toNode label)
             = ''edge-'' @ show_nat (date_now e) @ ''-'' @ substr 2 9 (math_random_base36 e)
         \<and> take 5 (edge_id (new_edge e fromNode toNode label)) = ''edge-''
         \<and> edge_fromNode (new_edge e fromNode toNode label) = node_id fromNode
         \<and> edge_toNode (new_edge e fromNode toNode label) = node_id toNode"
proof -
  have run: "createEdge e canvas fromNode toNode label w =
           (Inr (),
            \<lparr> host = h4,
              trace = trace w1
                @ [ConsoleError msg_edge_failed [ArgError err],
                   ConsoleLog msg_try_data_driven [],
                   HostGetData,
                   HostImportData (new_data d (new_edge e fromNode toNode label)),
                   HostRequestFrame]
                @ (case r of
                     Inr u \<Rightarrow> [ConsoleLog msg_edge_created_data_driven
                                 [ArgEdge (new_edge e fromNode toNode label)]]
                   | Inl err2 \<Rightarrow> [ConsoleError msg_edge_failed_fallback [ArgError err2],
                                  NoticeShown msg_cannot_create_connection]) \<rparr>)"
    using direct snapshot inject frame
    by (simp add: createEdge_def createEdge_fallback_def prog_defs Let_def split: sum.splits)
  have shape: "nodes (new_data d (new_edge e fromNode toNode label)) = nodes d"
    "edges (new_data d (new_edge e fromNode toNode label))
       = Some ((case edges d of None \<Rightarrow> [] | Some es \<Rightarrow> es)
               @ [new_edge e fromNode toNode label])"
    by (simp_all add: new_data_def)
  have fields:
    "edge_id (new_edge e fromNode toNode label)
       = ''edge-'' @ show_nat (date_now e) @ ''-'' @ substr 2 9 (math_random_base36 e)"
    "take 5 (edge_id (new_edge e fromNode toNode label)) = ''edge-''"
    "edge_fromNode (new_edge e fromNode toNode label) = node_id fromNode"
    "edge_toNode (new_edge e fromNode toNode label) = node_id toNode"
    by (simp_all add: new_edge_def Let_def new_edge_id_prefix) (simp add: new_edge_id_def)
  from run shape fields show ?thesis by simp
qed

text \<open>
  The theorem at the canvas whose \<^verbatim>\<open>createEdge\<close> throws and whose data can be read and
  injected: the host's edges go from none to exactly the one new record.
\<close>

theorem createEdge_fallback_splice_witness:
  "createEdge example_env splicing_canvas example_from_node example_to_node None initial_world =
     (Inr (),
      \<lparr> host = \<lparr> nodes = [],
                 edges = Some [\<lparr> edge_id = ''edge-1700000000000-4fzyo82mv'',
                                 edge_fromNode = ''node-1'', edge_fromSide = Some Bottom,
                                 edge_toNode = ''node-2'', edge_toSide = Some Top,
                                 edge_label = Some [] \<rparr>] \<rparr>,
        trace =
          [HostCreateEdge ''node-1'' ''node-2'' \<lparr> fromSide = Bottom, toSide = Top \<rparr>,
           ConsoleError msg_edge_failed [ArgError (HostError ''createEdge failed'')],
           ConsoleLog msg_try_data_driven [],
           HostGetData,
           HostImportData
             \<lparr> nodes = [],
               edges = Some [\<lparr> edge_id = ''edge-1700000000000-4fzyo82mv'',
                               edge_fromNode = ''node-1'', edge_fromSide = Some Bottom,
                               edge_toNode = ''node-2'', edge_toSide = Some Top,
                               edge_label = Some [] \<rparr>] \<rparr>,
           HostRequestFrame,
           ConsoleLog msg_edge_created_data_driven
             [ArgEdge \<lparr> edge_id = ''edge-1700000000000-4fzyo82mv'',
                        edge_fromNode = ''node-1'', edge_fromSide = Some Bottom,
                        edge_toNode = ''node-2'', edge_toSide = Some Top,
                        edge_label = Some [] \<rparr>]] \<rparr>)"
  using createEdge_fallback_splice
    [OF example_direct_throws,
     where e = example_env
       and gd = "\<lambda>h. (Inr (Some h), h)" and d = empty_data and ?h2.0 = empty_data
       and imp = "\<lambda>d h. (Inr (), d)"
       and ?h3.0 = "new_data empty_data
                      (new_edge example_env example_from_node example_to_node None)"
       and rf = "\<lambda>h. (Inr (), h)" and r = "Inr ()"
       and ?h4.0 = "new_data empty_data
                      (new_edge example_env example_from_node example_to_node None)"]
  by (simp add: splicing_canvas_def mock_canvas_def example_new_edge example_node_ids new_data_def empty_data_def)

text \<open>
  The claim as stated fails where the snapshot is available and \<^verbatim>\<open>importData\<close> throws:
  the direct path has thrown, \<^verbatim>\<open>getData\<close> has returned the data, and no
  \<^verbatim>\<open>requestFrame\<close> follows the injection.
\<close>

theorem createEdge_fallback_splice_counterexample:
  "fst (createEdge_direct import_failing_canvas example_from_node example_to_node None initial_world)
     = Inl (HostError ''createEdge failed'')
   \<and> invoke ''canvas.getData'' HostGetData (canvas_getData import_failing_canvas) initial_world
     = (Inr (Some empty_data), \<lparr> host = empty_data, trace = [HostGetData] \<rparr>)
   \<and> createEdge example_env import_failing_canvas example_from_node example_to_node None initial_world
     = (Inr (),
        \<lparr> host = empty_data,
          trace =
            [HostCreateEdge ''node-1'' ''node-2'' \<lparr> fromSide = Bottom, toSide = Top \<rparr>,
             ConsoleError msg_edge_failed [ArgError (HostError ''createEdge failed'')],
             ConsoleLog msg_try_data_driven [],
             HostGetData,
             HostImportData
               \<lparr> nodes = [],
                 edges = Some [\<lparr> edge_id = ''edge-1700000000000-4fzyo82mv'',
                                 edge_fromNode = ''node-1'', edge_fromSide = Some Bottom,
                                 edge_toNode = ''node-2'', edge_toSide = Some Top,
                                 edge_label = Some [] \<rparr>] \<rparr>,
             ConsoleError msg_edge_failed_fallback [ArgError (HostError ''importData failed'')],
             NoticeShown msg_cannot_create_connection] \<rparr>)
   \<and> HostRequestFrame \<notin> set (trace (snd (createEdge example_env import_failing_canvas
                                              example_from_node example_to_node None initial_world)))"
proof -
  have direct:
    "createEdge_direct import_failing_canvas example_from_node example_to_node None initial_world =
       (Inl (HostError ''createEdge failed''),
        \<lparr> host = empty_data,
          trace = [HostCreateEdge ''node-1'' ''node-2'' \<lparr> fromSide = Bottom, toSide = Top \<rparr>] \<rparr>)"
    by (simp add: createEdge_direct_def example_sides prog_defs import_failing_canvas_def splicing_canvas_def mock_canvas_def)
      (simp add: example_defs)
  have snapshot:
    "invoke ''canvas.getData'' HostGetData (canvas_getData import_failing_canvas) initial_world
       = (Inr (Some empty_data), \<lparr> host = empty_data, trace = [HostGetData] \<rparr>)"
    by (simp add: invoke_def import_failing_canvas_def splicing_canvas_def mock_canvas_def initial_world_def)
  have run:
    "createEdge example_env import_failing_canvas example_from_node example_to_node None initial_world
     = (Inr (),
        \<lparr> host = empty_data,
          trace =
            [HostCreateEdge ''node-1'' ''node-2'' \<lparr> fromSide = Bottom, toSide = Top \<rparr>,
             ConsoleError msg_edge_failed [ArgError (HostError ''createEdge failed'')],
             ConsoleLog msg_try_data_driven [],
             HostGetData,
             HostImportData
               \<lparr> nodes = [],
                 edges = Some [\<lparr> edge_id = ''edge-1700000000000-4fzyo82mv'',
                                 edge_fromNode = ''node-1'', edge_fromSide = Some Bottom,
                                 edge_toNode = ''node-2'', edge_toSide = Some Top,
                                 edge_label = Some [] \<rparr>] \<rparr>,
             ConsoleError msg_edge_failed_fallback [ArgError (HostError ''importData failed'')],
             NoticeShown msg_cannot_create_connection] \<rparr>)"
    unfolding createEdge_def prog_try_def direct
    by (simp add: createEdge_fallback_def prog_defs import_failing_canvas_def splicing_canvas_def mock_canvas_def example_new_edge
          new_data_def empty_data_def Let_def)
  show ?thesis
    unfolding run using direct snapshot by simp
qed

text \<open>
  C2 (as amended). \<^verbatim>\<open>createEdge\<close> never throws, for any input. When both the direct path
  and the fallback throw, it logs the fallback's error with \<^verbatim>\<open>console.error\<close> and shows
  the notice, and that is all: the error taxonomy is not used. When the fallback fails
  because the snapshot is unavailable (\<^verbatim>\<open>getData\<close> is missing, throws, or returns
  \<^verbatim>\<open>null\<close>), \<^verbatim>\<open>importData\<close> is never called, so the fallback injects no edge record,
  and the host state is the one that the direct attempt and \<^verbatim>\<open>getData\<close> left.
\<close>

theorem createEdge_never_throws:
  fixes canvas :: "('h, 'n) canvas"
  shows
  "fst (createEdge e canvas fromNode toNode label w) = Inr ()
   \<and> (createEdge_direct canvas fromNode toNode label w = (Inl err, w1)
        \<and> createEdge_fallback e canvas fromNode toNode label
             (w1\<lparr> trace := trace w1 @ [ConsoleError msg_edge_failed [ArgError err]] \<rparr>)
            = (Inl err2, w2)
      \<longrightarrow> createEdge e canvas fromNode toNode label w =
            (Inr (),
             w2\<lparr> trace := trace w2
                     @ [ConsoleError msg_edge_failed_fallback [ArgError err2],
                        NoticeShown msg_cannot_create_connection] \<rparr>))
   \<and> (createEdge_direct canvas fromNode toNode label w = (Inl err, w1)
        \<and> canvas_getData canvas = None
      \<longrightarrow> createEdge e canvas fromNode toNode label w =
            (Inr (),
             \<lparr> host = host w1,
               trace = trace w1
                 @ [ConsoleError msg_edge_failed [ArgError err],
                    ConsoleLog msg_try_data_driven [],
                    ConsoleError msg_edge_failed_fallback
                      [ArgError (JsTypeError ''canvas.getData is not a function'')],
                    NoticeShown msg_cannot_create_connection] \<rparr>))
   \<and> (createEdge_direct canvas fromNode toNode label w = (Inl err, w1)
        \<and> canvas_getData canvas = Some gd \<and> gd (host w1) = (Inl err2, h2)
      \<longrightarrow> createEdge e canvas fromNode toNode label w =
            (Inr (),
             \<lparr> host = h2,
               trace = trace w1
                 @ [ConsoleError msg_edge_failed [ArgError err],
                    ConsoleLog msg_try_data_driven [],
                    HostGetData,
                    ConsoleError msg_edge_failed_fallback [ArgError err2],
                    NoticeShown msg_cannot_create_connection] \<rparr>))
   \<and> (createEdge_direct canvas fromNode toNode label w = (Inl err, w1)
        \<and> canvas_getData canvas = Some gd \<and> gd (host w1) = (Inr None, h2)
      \<longrightarrow> createEdge e canvas fromNode toNode label w =
            (Inr (),
             \<lparr> host = h2,
               trace = trace w1
                 @ [ConsoleError msg_edge_failed [ArgError err],
                    ConsoleLog msg_try_data_driven [],
                    HostGetData,
                    ConsoleError msg_edge_failed_fallback [ArgError (JsError msg_no_canvas_data)],
                    NoticeShown msg_cannot_create_connection] \<rparr>))"
proof (intro conjI impI)
  show "fst (createEdge e canvas fromNode toNode label w) = Inr ()"
    by (rule createEdge_returns)
next
  assume "createEdge_direct canvas fromNode toNode label w = (Inl err, w1)
        \<and> createEdge_fallback e canvas fromNode toNode label
             (w1\<lparr> trace := trace w1 @ [ConsoleError msg_edge_failed [ArgError err]] \<rparr>)
            = (Inl err2, w2)"
  then show "createEdge e canvas fromNode toNode label w =
            (Inr (),
             w2\<lparr> trace := trace w2
                     @ [ConsoleError msg_edge_failed_fallback [ArgError err2],
                        NoticeShown msg_cannot_create_connection] \<rparr>)"
    by (simp add: createEdge_def prog_try_def prog_bind_def console_error_def new_Notice_def
          emit_def)
next
  assume "createEdge_direct canvas fromNode toNode label w = (Inl err, w1)
        \<and> canvas_getData canvas = None"
  then show "createEdge e canvas fromNode toNode label w =
            (Inr (),
             \<lparr> host = host w1,
               trace = trace w1
                 @ [ConsoleError msg_edge_failed [ArgError err],
                    ConsoleLog msg_try_data_driven [],
                    ConsoleError msg_edge_failed_fallback
                      [ArgError (JsTypeError ''canvas.getData is not a function'')],
                    NoticeShown msg_cannot_create_connection] \<rparr>)"
    by (simp add: createEdge_def createEdge_fallback_def prog_defs)
next
  assume "createEdge_direct canvas fromNode toNode label w = (Inl err, w1)
        \<and> canvas_getData canvas = Some gd \<and> gd (host w1) = (Inl err2, h2)"
  then show "createEdge e canvas fromNode toNode label w =
            (Inr (),
             \<lparr> host = h2,
               trace = trace w1
                 @ [ConsoleError msg_edge_failed [ArgError err],
                    ConsoleLog msg_try_data_driven [],
                    HostGetData,
                    ConsoleError msg_edge_failed_fallback [ArgError err2],
                    NoticeShown msg_cannot_create_connection] \<rparr>)"
    by (simp add: createEdge_def createEdge_fallback_def prog_defs)
next
  assume "createEdge_direct canvas fromNode toNode label w = (Inl err, w1)
        \<and> canvas_getData canvas = Some gd \<and> gd (host w1) = (Inr None, h2)"
  then show "createEdge e canvas fromNode toNode label w =
            (Inr (),
             \<lparr> host = h2,
               trace = trace w1
                 @ [ConsoleError msg_edge_failed [ArgError err],
                    ConsoleLog msg_try_data_driven [],
                    HostGetData,
                    ConsoleError msg_edge_failed_fallback [ArgError (JsError msg_no_canvas_data)],
                    NoticeShown msg_cannot_create_connection] \<rparr>)"
    by (simp add: createEdge_def createEdge_fallback_def prog_defs)
qed

text \<open>
  The theorem at three canvases: the one whose \<^verbatim>\<open>getData\<close> returns \<^verbatim>\<open>null\<close> (with a
  label), the tests' mock canvas, which has neither \<^verbatim>\<open>createEdge\<close> nor \<^verbatim>\<open>getData\<close>, and
  the one whose \<^verbatim>\<open>requestSave\<close> and \<^verbatim>\<open>getData\<close> crash.
\<close>

theorem createEdge_never_throws_witness:
  "createEdge example_env null_data_canvas example_from_node example_to_node (Some ''hi'') initial_world
     = (Inr (),
        \<lparr> host = empty_data,
          trace =
            [HostCreateEdge ''node-1'' ''node-2'' \<lparr> fromSide = Bottom, toSide = Top \<rparr>,
             ConsoleError msg_edge_failed [ArgError (HostError ''createEdge failed'')],
             ConsoleLog msg_try_data_driven [],
             HostGetData,
             ConsoleError msg_edge_failed_fallback [ArgError (JsError msg_no_canvas_data)],
             NoticeShown msg_cannot_create_connection] \<rparr>)
   \<and> fst (createEdge example_env mock_canvas example_from_node example_to_node None initial_world)
     = Inr ()
   \<and> createEdge example_env crashing_save_canvas example_from_node example_to_node None initial_world
     = (Inr (),
        \<lparr> host = \<lparr> nodes = [],
                   edges = Some [host_made_edge ''node-1'' ''node-2''
                                   \<lparr> fromSide = Bottom, toSide = Top \<rparr>] \<rparr>,
          trace =
            [HostCreateEdge ''node-1'' ''node-2'' \<lparr> fromSide = Bottom, toSide = Top \<rparr>,
             HostRequestSave,
             ConsoleError msg_edge_failed [ArgError (HostError ''getData is not a function'')],
             ConsoleLog msg_try_data_driven [],
             HostGetData,
             ConsoleError msg_edge_failed_fallback [ArgError (HostError ''getData is not a function'')],
             NoticeShown msg_cannot_create_connection] \<rparr>)"
proof -
  have direct_null:
    "createEdge_direct null_data_canvas example_from_node example_to_node (Some ''hi'') initial_world =
       (Inl (HostError ''createEdge failed''),
        \<lparr> host = empty_data,
          trace = [HostCreateEdge ''node-1'' ''node-2'' \<lparr> fromSide = Bottom, toSide = Top \<rparr>] \<rparr>)"
    by (simp add: createEdge_direct_def example_sides example_node_ids prog_defs
          null_data_canvas_def splicing_canvas_def mock_canvas_def
          initial_world_def label_truthy_def label_or_empty_def Let_def)
  have direct_crash:
    "createEdge_direct crashing_save_canvas example_from_node example_to_node None initial_world =
       (Inl (HostError ''getData is not a function''),
        \<lparr> host = \<lparr> nodes = [],
                   edges = Some [host_made_edge ''node-1'' ''node-2''
                                   \<lparr> fromSide = Bottom, toSide = Top \<rparr>] \<rparr>,
          trace = [HostCreateEdge ''node-1'' ''node-2'' \<lparr> fromSide = Bottom, toSide = Top \<rparr>,
                   HostRequestSave] \<rparr>)"
    by (simp add: createEdge_direct_def example_sides example_node_ids prog_defs
          crashing_save_canvas_def mock_canvas_def
          initial_world_def label_truthy_def new_data_def empty_data_def Let_def)
  have null_case:
    "createEdge example_env null_data_canvas example_from_node example_to_node (Some ''hi'') initial_world
     = (Inr (),
        \<lparr> host = empty_data,
          trace =
            [HostCreateEdge ''node-1'' ''node-2'' \<lparr> fromSide = Bottom, toSide = Top \<rparr>,
             ConsoleError msg_edge_failed [ArgError (HostError ''createEdge failed'')],
             ConsoleLog msg_try_data_driven [],
             HostGetData,
             ConsoleError msg_edge_failed_fallback [ArgError (JsError msg_no_canvas_data)],
             NoticeShown msg_cannot_create_connection] \<rparr>)"
    using createEdge_never_throws
      [where canvas = null_data_canvas and fromNode = example_from_node
         and toNode = example_to_node and label = "Some ''hi''" and w = initial_world
         and e = example_env and err = "HostError ''createEdge failed''"
         and ?w1.0 = "\<lparr> host = empty_data,
                         trace = [HostCreateEdge ''node-1'' ''node-2''
                                    \<lparr> fromSide = Bottom, toSide = Top \<rparr>] \<rparr>"
         and gd = "\<lambda>h. (Inr None, h)" and ?h2.0 = empty_data]
    unfolding direct_null
    by (simp add: null_data_canvas_def crashing_save_canvas_def splicing_canvas_def mock_canvas_def)
  have mock_case:
    "fst (createEdge example_env mock_canvas example_from_node example_to_node None initial_world)
       = Inr ()"
    using createEdge_never_throws
      [where canvas = mock_canvas and fromNode = example_from_node
         and toNode = example_to_node and label = None and w = initial_world
         and e = example_env]
    by simp
  have crash_case:
    "createEdge example_env crashing_save_canvas example_from_node example_to_node None initial_world
     = (Inr (),
        \<lparr> host = \<lparr> nodes = [],
                   edges = Some [host_made_edge ''node-1'' ''node-2''
                                   \<lparr> fromSide = Bottom, toSide = Top \<rparr>] \<rparr>,
          trace =
            [HostCreateEdge ''node-1'' ''node-2'' \<lparr> fromSide = Bottom, toSide = Top \<rparr>,
             HostRequestSave,
             ConsoleError msg_edge_failed [ArgError (HostError ''getData is not a function'')],
             ConsoleLog msg_try_data_driven [],
             HostGetData,
             ConsoleError msg_edge_failed_fallback [ArgError (HostError ''getData is not a function'')],
             NoticeShown msg_cannot_create_connection] \<rparr>)"
    using createEdge_never_throws
      [where canvas = crashing_save_canvas and fromNode = example_from_node
         and toNode = example_to_node and label = None and w = initial_world
         and e = example_env and err = "HostError ''getData is not a function''"
         and ?w1.0 = "\<lparr> host = \<lparr> nodes = [],
                                    edges = Some [host_made_edge ''node-1'' ''node-2''
                                                    \<lparr> fromSide = Bottom, toSide = Top \<rparr>] \<rparr>,
                         trace = [HostCreateEdge ''node-1'' ''node-2''
                                    \<lparr> fromSide = Bottom, toSide = Top \<rparr>,
                                  HostRequestSave] \<rparr>"
         and gd = "\<lambda>h. (Inl (HostError ''getData is not a function''), h)"
         and ?err2.0 = "HostError ''getData is not a function''"
         and ?h2.0 = "\<lparr> nodes = [],
                         edges = Some [host_made_edge ''node-1'' ''node-2''
                                         \<lparr> fromSide = Bottom, toSide = Top \<rparr>] \<rparr>"]
    unfolding direct_crash
    by (simp add: null_data_canvas_def crashing_save_canvas_def splicing_canvas_def mock_canvas_def)
  from null_case mock_case crash_case show ?thesis by simp
qed

text \<open>
  The claim as stated fails on both counts. At the tests' mock canvas both paths throw and
  what is reported is two console errors and a notice, none of them an instance of
  \<^verbatim>\<open>NodeOperationError\<close>; the notice's text is not even the taxonomy's message for
  \<^verbatim>\<open>connect\<close>. At the canvas whose \<^verbatim>\<open>requestSave\<close> and \<^verbatim>\<open>getData\<close> crash both paths
  throw as well, and the graph is left with the edge that the host's own \<^verbatim>\<open>createEdge\<close>
  had already added.
\<close>

theorem createEdge_never_throws_counterexample:
  "createEdge example_env mock_canvas example_from_node example_to_node None initial_world
     = (Inr (),
        \<lparr> host = empty_data,
          trace =
            [ConsoleError msg_edge_failed
               [ArgError (JsTypeError ''canvas.createEdge is not a function'')],
             ConsoleLog msg_try_data_driven [],
             ConsoleError msg_edge_failed_fallback
               [ArgError (JsTypeError ''canvas.getData is not a function'')],
             NoticeShown msg_cannot_create_connection] \<rparr>)
   \<and> \<not> list_ex reports_node_operation_failure
         (trace (snd (createEdge example_env mock_canvas example_from_node example_to_node
                        None initial_world)))
   \<and> message (new_NodeOperationError Connect None None None) \<noteq> msg_cannot_create_connection
   \<and> edges (host (snd (createEdge example_env crashing_save_canvas example_from_node
                          example_to_node None initial_world)))
       = Some [host_made_edge ''node-1'' ''node-2'' \<lparr> fromSide = Bottom, toSide = Top \<rparr>]
   \<and> edges (host initial_world) = Some []"
proof -
  have direct_mock:
    "createEdge_direct mock_canvas example_from_node example_to_node None initial_world =
       (Inl (JsTypeError ''canvas.createEdge is not a function''), initial_world)"
    by (simp add: createEdge_direct_def prog_defs null_data_canvas_def crashing_save_canvas_def splicing_canvas_def mock_canvas_def Let_def)
  have run_mock:
    "createEdge example_env mock_canvas example_from_node example_to_node None initial_world
     = (Inr (),
        \<lparr> host = empty_data,
          trace =
            [ConsoleError msg_edge_failed
               [ArgError (JsTypeError ''canvas.createEdge is not a function'')],
             ConsoleLog msg_try_data_driven [],
             ConsoleError msg_edge_failed_fallback
               [ArgError (JsTypeError ''canvas.getData is not a function'')],
             NoticeShown msg_cannot_create_connection] \<rparr>)"
    unfolding createEdge_def prog_try_def direct_mock
    by (simp add: createEdge_fallback_def prog_defs null_data_canvas_def crashing_save_canvas_def splicing_canvas_def mock_canvas_def initial_world_def)
  have direct_crash:
    "createEdge_direct crashing_save_canvas example_from_node example_to_node None initial_world =
       (Inl (HostError ''getData is not a function''),
        \<lparr> host = \<lparr> nodes = [],
                   edges = Some [host_made_edge ''node-1'' ''node-2''
                                   \<lparr> fromSide = Bottom, toSide = Top \<rparr>] \<rparr>,
          trace = [HostCreateEdge ''node-1'' ''node-2'' \<lparr> fromSide = Bottom, toSide = Top \<rparr>,
                   HostRequestSave] \<rparr>)"
    by (simp add: createEdge_direct_def example_sides example_node_ids prog_defs
          crashing_save_canvas_def mock_canvas_def
          initial_world_def label_truthy_def new_data_def empty_data_def Let_def)
  have run_crash:
    "edges (host (snd (createEdge example_env crashing_save_canvas example_from_node
                          example_to_node None initial_world)))
       = Some [host_made_edge ''node-1'' ''node-2'' \<lparr> fromSide = Bottom, toSide = Top \<rparr>]"
    unfolding createEdge_def prog_try_def direct_crash
    by (simp add: createEdge_fallback_def prog_defs null_data_canvas_def crashing_save_canvas_def splicing_canvas_def mock_canvas_def)
  have texts: "message (new_NodeOperationError Connect None None None) \<noteq> msg_cannot_create_connection"
    by (simp add: new_NodeOperationError_def msg_default_connect_def msg_cannot_create_connection_def)
  have no_report:
    "\<not> list_ex reports_node_operation_failure
         (trace (snd (createEdge example_env mock_canvas example_from_node example_to_node
                        None initial_world)))"
    unfolding run_mock by (simp add: reports_node_operation_failure_def)
  from run_mock no_report texts run_crash show ?thesis
    by (simp add: initial_world_def empty_data_def)
qed



text \<open>
  C4 (as amended). \<^verbatim>\<open>updateNodeContent\<close> sets the node's text through the node's own
  \<^verbatim>\<open>setText\<close> when the node has one and by assignment to the \<^verbatim>\<open>text\<close> field otherwise.
  Afterwards it calls \<^verbatim>\<open>requestFrame\<close> if the canvas has a \<^verbatim>\<open>requestFrame\<close> function
  (and \<^verbatim>\<open>setText\<close> has not thrown); on a canvas without one nothing is requested. It never
  calls \<^verbatim>\<open>requestSave\<close>, for any input: the trace only grows, and no \<^verbatim>\<open>requestSave\<close> is
  among the events added.
\<close>

theorem updateNodeContent_spec:
  fixes canvas :: "('h, 'n) canvas"
  shows
  "(node_setText node = None \<and> canvas_requestFrame canvas = Some rf \<and> rf (host w) = (Inr (), h1) \<longrightarrow>
      updateNodeContent canvas node content w =
        (Inr (node\<lparr> node_text := JString content \<rparr>),
         \<lparr> host = h1, trace = trace w @ [HostRequestFrame] \<rparr>))
   \<and> (node_setText node = Some st \<and> st content (host w) = (Inr (), h1)
        \<and> canvas_requestFrame canvas = Some rf \<and> rf h1 = (Inr (), h2) \<longrightarrow>
      updateNodeContent canvas node content w =
        (Inr node,
         \<lparr> host = h2, trace = trace w @ [NodeSetText (node_id node) content, HostRequestFrame] \<rparr>))
   \<and> (node_setText node = None \<and> canvas_requestFrame canvas = None \<longrightarrow>
      updateNodeContent canvas node content w =
        (Inr (node\<lparr> node_text := JString content \<rparr>), w))
   \<and> (node_setText node = Some st \<and> st content (host w) = (Inr (), h1)
        \<and> canvas_requestFrame canvas = None \<longrightarrow>
      updateNodeContent canvas node content w =
        (Inr node, \<lparr> host = h1, trace = trace w @ [NodeSetText (node_id node) content] \<rparr>))
   \<and> take (length (trace w)) (trace (snd (updateNodeContent canvas node content w))) = trace w
   \<and> HostRequestSave
        \<notin> set (drop (length (trace w)) (trace (snd (updateNodeContent canvas node content w))))"
  by (auto simp: updateNodeContent_def prog_defs split: sum.splits option.splits prod.splits)

theorem updateNodeContent_spec_witness:
  "updateNodeContent mock_canvas (text_node ''node-1'' 0 0 400 200 ''...'') ''Updated content''
       initial_world
     = (Inr (text_node ''node-1'' 0 0 400 200 ''Updated content''),
        \<lparr> host = empty_data, trace = [HostRequestFrame] \<rparr>)
   \<and> updateNodeContent mock_canvas (host_text_node ''node-1'' 0 0 400 200 []) ''Hello via setText''
       initial_world
     = (Inr (host_text_node ''node-1'' 0 0 400 200 []),
        \<lparr> host = empty_data,
          trace = [NodeSetText ''node-1'' ''Hello via setText'', HostRequestFrame] \<rparr>)
   \<and> updateNodeContent frameless_canvas (host_text_node ''node-1'' 0 0 400 200 [])
       ''Hello via setText'' initial_world
     = (Inr (host_text_node ''node-1'' 0 0 400 200 []),
        \<lparr> host = empty_data, trace = [NodeSetText ''node-1'' ''Hello via setText''] \<rparr>)"
  using
    updateNodeContent_spec
      [where canvas = mock_canvas and node = "text_node ''node-1'' 0 0 400 200 ''...''"
         and content = "''Updated content''" and w = initial_world
         and rf = "\<lambda>h. (Inr (), h)" and ?h1.0 = empty_data]
    updateNodeContent_spec
      [where canvas = mock_canvas and node = "host_text_node ''node-1'' 0 0 400 200 []"
         and content = "''Hello via setText''" and w = initial_world
         and st = "\<lambda>c h. (Inr (), h)" and ?h1.0 = empty_data
         and rf = "\<lambda>h. (Inr (), h)" and ?h2.0 = empty_data]
    updateNodeContent_spec
      [where canvas = frameless_canvas and node = "host_text_node ''node-1'' 0 0 400 200 []"
         and content = "''Hello via setText''" and w = initial_world
         and st = "\<lambda>c h. (Inr (), h)" and ?h1.0 = empty_data]
  by (simp add: frameless_canvas_def mock_canvas_def host_text_node_def text_node_def
        text_node_of_def initial_world_def)

text \<open>
  The claim as stated fails at a canvas without a \<^verbatim>\<open>requestFrame\<close> function (the mock
  canvas of the property tests): the text is assigned and no \<^verbatim>\<open>requestFrame\<close> is
  triggered.
\<close>

theorem updateNodeContent_spec_counterexample:
  "updateNodeContent frameless_canvas (text_node ''node-1'' 0 0 400 200 ''...'') ''Updated content''
       initial_world
     = (Inr (text_node ''node-1'' 0 0 400 200 ''Updated content''), initial_world)
   \<and> HostRequestFrame
        \<notin> set (trace (snd (updateNodeContent frameless_canvas
                              (text_node ''node-1'' 0 0 400 200 ''...'') ''Updated content''
                              initial_world)))"
  by (simp add: updateNodeContent_def prog_defs frameless_canvas_def mock_canvas_def
        text_node_def text_node_of_def initial_world_def)

text \<open>
  C5 (as amended). \<^verbatim>\<open>calculateNodePosition\<close> returns \<open>x = n.x + ox\<close> and
  \<open>y = (n.y + n.height) + oy\<close>, the sums being those of doubles; it is a function of its
  three arguments. When the node's coordinates, its height and the offsets are integers
  (negative offsets included) and the sums \<open>n.x + ox\<close>, \<open>n.y + n.height\<close> and
  \<open>n.y + n.height + oy\<close> are below \<open>2^53\<close> in magnitude, the result is exactly these
  integer sums, and for \<open>oy \<ge> 0\<close> and a positive height the resulting \<open>y\<close> is strictly
  greater than \<open>n.y\<close>.
\<close>

theorem calculateNodePosition_spec:
  "calculateNodePosition n ox oy
     = \<lparr> pos_x = js_add (node_x n) ox, pos_y = js_add (js_add (node_y n) (node_height n)) oy \<rparr>
   \<and> (node_x n = js_int x \<and> node_y n = js_int y \<and> node_height n = js_int h
        \<and> ox = js_int i \<and> oy = js_int j
        \<and> \<bar>x + i\<bar> < 2 ^ 53 \<and> \<bar>y + h\<bar> < 2 ^ 53 \<and> \<bar>y + h + j\<bar> < 2 ^ 53 \<longrightarrow>
        calculateNodePosition n ox oy = \<lparr> pos_x = js_int (x + i), pos_y = js_int (y + h + j) \<rparr>
        \<and> (0 \<le> j \<and> 0 < h \<longrightarrow> js_greater (pos_y (calculateNodePosition n ox oy)) (node_y n)))"
  by (simp add: calculateNodePosition_def js_add_int js_greater_int)

theorem calculateNodePosition_spec_witness:
  "calculateNodePosition trigger_node (js_int 0) (js_int 150)
     = \<lparr> pos_x = js_int 100, pos_y = js_int 350 \<rparr>
   \<and> js_greater (pos_y (calculateNodePosition trigger_node (js_int 0) (js_int 150)))
        (node_y trigger_node)
   \<and> calculateNodePosition trigger_node (js_int (- 50)) (js_int (- 250))
     = \<lparr> pos_x = js_int 50, pos_y = js_int (- 50) \<rparr>"
  using
    calculateNodePosition_spec
      [where n = trigger_node and ox = "js_int 0" and oy = "js_int 150"
         and x = 100 and y = 100 and h = 100 and i = 0 and j = 150]
    calculateNodePosition_spec
      [where n = trigger_node and ox = "js_int (- 50)" and oy = "js_int (- 250)"
         and x = 100 and y = 100 and h = 100 and i = "- 50" and j = "- 250"]
  by (simp add: trigger_node_def text_node_def text_node_of_def js_add_int js_greater_int)

text \<open>
  The claim as stated fails far from the origin. At a node with \<open>y = 2^53\<close> and height
  \<open>1\<close>, with both offsets \<open>0\<close>, the sum \<open>2^53 + 1\<close> is not a double and rounds to
  \<open>2^53\<close>: the resulting \<open>y\<close> equals \<open>n.y\<close>, is not greater than it, and is not the
  integer \<open>n.y + n.height + oy\<close>.
\<close>

theorem calculateNodePosition_spec_counterexample:
  "node_y far_node = js_int 9007199254740992
   \<and> node_height far_node = js_int 1
   \<and> js_greater (node_height far_node) (js_int 0)
   \<and> pos_y (calculateNodePosition far_node (js_int 0) (js_int 0)) = Finite 4503599627370496 1
   \<and> js_strict_eq (pos_y (calculateNodePosition far_node (js_int 0) (js_int 0))) (node_y far_node)
   \<and> \<not> js_greater (pos_y (calculateNodePosition far_node (js_int 0) (js_int 0))) (node_y far_node)
   \<and> \<not> js_strict_eq (pos_y (calculateNodePosition far_node (js_int 0) (js_int 0)))
          (js_int (9007199254740992 + 1 + 0))"
proof -
  have y: "pos_y (calculateNodePosition far_node (js_int 0) (js_int 0)) = Finite 4503599627370496 1"
    by (simp add: calculateNodePosition_def far_node_def text_node_def text_node_of_def
          far_sum far_sum_zero)
  show ?thesis
    unfolding y
    by (simp add: far_node_def text_node_def text_node_of_def js_greater_int)
      (simp add: js_int_def js_greater_def)
qed

text \<open>
  C6. \<^verbatim>\<open>createTextNode\<close> calls the host's node-creation primitive once, with exactly the
  given position, size and text, \<^verbatim>\<open>focus: false\<close> and \<^verbatim>\<open>save: false\<close>. What the host
  returns is what the caller gets (and what the host throws is thrown on). The only other
  effect is a console error when the returned node has no \<^verbatim>\<open>getData\<close> method; the node
  is returned all the same.
\<close>

theorem createTextNode_spec:
  fixes canvas :: "('h, 'n) canvas"
  defines "options \<equiv> \<lambda>content x y width height.
             \<lparr> opt_pos = \<lparr> pos_x = x, pos_y = y \<rparr>,
               opt_size = \<lparr> dim_width = width, dim_height = height \<rparr>,
               opt_text = content, opt_focus = False, opt_save = False \<rparr>"
  assumes prim: "canvas_createTextNode canvas = Some f"
      and call: "f (options content x y width height) (host w) = (r, h')"
  shows "createTextNode canvas content x y width height w =
           (r, \<lparr> host = h',
                 trace = trace w @ [HostCreateTextNode (options content x y width height)]
                   @ (case r of
                        Inr (Some n) \<Rightarrow>
                          if node_has_getData n then []
                          else [ConsoleError msg_node_incomplete [ArgNode (node_id n)]]
                      | _ \<Rightarrow> []) \<rparr>)"
  using prim call
  by (auto simp: createTextNode_def options_def prog_defs Let_def split: sum.splits option.splits)

theorem createTextNode_spec_witness:
  "createTextNode mock_canvas ''Test content'' (js_int 100) (js_int 200) (js_int 400) (js_int 200)
       initial_world
     = (Inr (Some (text_node ''node-1'' 100 200 400 200 ''Test content'')),
        \<lparr> host = empty_data,
          trace =
            [HostCreateTextNode
               \<lparr> opt_pos = \<lparr> pos_x = js_int 100, pos_y = js_int 200 \<rparr>,
                 opt_size = \<lparr> dim_width = js_int 400, dim_height = js_int 200 \<rparr>,
                 opt_text = ''Test content'', opt_focus = False, opt_save = False \<rparr>,
             ConsoleError msg_node_incomplete [ArgNode ''node-1'']] \<rparr>)"
  using createTextNode_spec
    [where canvas = mock_canvas and content = "''Test content''"
       and x = "js_int 100" and y = "js_int 200"
       and width = "js_int 400" and height = "js_int 200" and w = initial_world
       and f = "\<lambda>options h.
           (Inr (Some (text_node_of ''node-1''
                         (pos_x (opt_pos options)) (pos_y (opt_pos options))
                         (dim_width (opt_size options)) (dim_height (opt_size options))
                         (opt_text options))), h)"
       and r = "Inr (Some (text_node ''node-1'' 100 200 400 200 ''Test content''))"
       and h' = empty_data]
  by (simp add: mock_canvas_def initial_world_def) (simp add: text_node_def text_node_of_def)

text \<open>
  C7. Whatever the constructor arguments, a \<^verbatim>\<open>NodeOperationError\<close> is retryable, and a
  \<^verbatim>\<open>ContextExtractionError\<close> and a \<^verbatim>\<open>CanvasNotAvailableError\<close> are not.
\<close>

theorem taxonomy_retryable:
  "retryable (new_NodeOperationError opn msg nid dtl)
   \<and> canvas_error_retryable (NodeOperation (new_NodeOperationError opn msg nid dtl))
   \<and> \<not> retryable (new_ContextExtractionError stg msg nid dtl)
   \<and> \<not> canvas_error_retryable (ContextExtraction (new_ContextExtractionError stg msg nid dtl))
   \<and> \<not> retryable (new_CanvasNotAvailableError msg dtl)
   \<and> \<not> canvas_error_retryable (CanvasNotAvailable (new_CanvasNotAvailableError msg dtl))"
  by (simp add: new_NodeOperationError_def new_ContextExtractionError_def
        new_CanvasNotAvailableError_def)

text \<open>
  C8 (as amended). Each guard looks at the discriminator first. A node whose \<^verbatim>\<open>type\<close> is
  \<^verbatim>\<open>'text'\<close>, \<^verbatim>\<open>'file'\<close>, \<^verbatim>\<open>'link'\<close> or \<^verbatim>\<open>'group'\<close> is classified as that variant
  whatever its other fields are. A node whose \<^verbatim>\<open>type\<close> is truthy (a non-empty string, for
  one) and different from a variant's tag is never classified as that variant. A node whose
  \<^verbatim>\<open>type\<close> is falsy (absent, \<^verbatim>\<open>undefined\<close>, \<^verbatim>\<open>null\<close>, the empty string, \<^verbatim>\<open>0\<close>,
  \<^verbatim>\<open>false\<close>) is classified by its structure: text iff \<^verbatim>\<open>text\<close> is a string, file iff
  \<^verbatim>\<open>file\<close> is a string or an object with a string \<^verbatim>\<open>path\<close>, link iff \<^verbatim>\<open>url\<close> is a
  string, group iff it has none of \<^verbatim>\<open>text\<close>, \<^verbatim>\<open>file\<close>, \<^verbatim>\<open>url\<close>.
\<close>

theorem node_guards_classification:
  fixes n :: "('h, 'z) canvas_node_scheme"
  shows
  "(node_type n = JString ''text'' \<longrightarrow> isTextNode n)
   \<and> (node_type n = JString ''file'' \<longrightarrow> isFileNode n)
   \<and> (node_type n = JString ''link'' \<longrightarrow> isLinkNode n)
   \<and> (node_type n = JString ''group'' \<longrightarrow> isGroupNode n)
   \<and> (truthy (node_type n) \<and> node_type n \<noteq> JString ''text'' \<longrightarrow> \<not> isTextNode n)
   \<and> (truthy (node_type n) \<and> node_type n \<noteq> JString ''file'' \<longrightarrow> \<not> isFileNode n)
   \<and> (truthy (node_type n) \<and> node_type n \<noteq> JString ''link'' \<longrightarrow> \<not> isLinkNode n)
   \<and> (truthy (node_type n) \<and> node_type n \<noteq> JString ''group'' \<longrightarrow> \<not> isGroupNode n)
   \<and> (\<not> truthy (node_type n) \<longrightarrow>
         (isTextNode n \<longleftrightarrow> (\<exists>s. node_text n = JString s))
       \<and> (isFileNode n \<longleftrightarrow>
            (\<exists>s. node_file n = JString s)
            \<or> (\<exists>fs p. node_file n = JObject fs \<and> map_of fs ''path'' = Some (JString p)))
       \<and> (isLinkNode n \<longleftrightarrow> (\<exists>s. node_url n = JString s))
       \<and> (isGroupNode n \<longleftrightarrow>
            node_text n = JUndefined \<and> node_file n = JUndefined \<and> node_url n = JUndefined))"
proof -
  have str: "typeof v = TString \<longleftrightarrow> (\<exists>s. v = JString s)" for v
    by (cases v) simp_all
  have undef: "typeof v = TUndefined \<longleftrightarrow> v = JUndefined" for v
    by (cases v) simp_all
  have obj: "truthy v \<and> typeof v = TObject \<and> typeof (get_prop v ''path'') = TString
             \<longleftrightarrow> (\<exists>fs p. v = JObject fs \<and> map_of fs ''path'' = Some (JString p))" for v
    by (cases v) (auto simp: str split: option.splits)
  have tagged:
    "(node_type n = JString ''text'' \<longrightarrow> isTextNode n)
     \<and> (node_type n = JString ''file'' \<longrightarrow> isFileNode n)
     \<and> (node_type n = JString ''link'' \<longrightarrow> isLinkNode n)
     \<and> (node_type n = JString ''group'' \<longrightarrow> isGroupNode n)"
    by (simp add: isTextNode_def isFileNode_def isLinkNode_def isGroupNode_def)
  have other:
    "(truthy (node_type n) \<and> node_type n \<noteq> JString ''text'' \<longrightarrow> \<not> isTextNode n)
     \<and> (truthy (node_type n) \<and> node_type n \<noteq> JString ''file'' \<longrightarrow> \<not> isFileNode n)
     \<and> (truthy (node_type n) \<and> node_type n \<noteq> JString ''link'' \<longrightarrow> \<not> isLinkNode n)
     \<and> (truthy (node_type n) \<and> node_type n \<noteq> JString ''group'' \<longrightarrow> \<not> isGroupNode n)"
    by (simp add: isTextNode_def isFileNode_def isLinkNode_def isGroupNode_def)
  have structural:
    "\<not> truthy (node_type n) \<longrightarrow>
         (isTextNode n \<longleftrightarrow> (\<exists>s. node_text n = JString s))
       \<and> (isFileNode n \<longleftrightarrow>
            (\<exists>s. node_file n = JString s)
            \<or> (\<exists>fs p. node_file n = JObject fs \<and> map_of fs ''path'' = Some (JString p)))
       \<and> (isLinkNode n \<longleftrightarrow> (\<exists>s. node_url n = JString s))
       \<and> (isGroupNode n \<longleftrightarrow>
            node_text n = JUndefined \<and> node_file n = JUndefined \<and> node_url n = JUndefined)"
  proof
    assume falsy: "\<not> truthy (node_type n)"
    then have tags: "node_type n \<noteq> JString ''text''" "node_type n \<noteq> JString ''file''"
      "node_type n \<noteq> JString ''link''" "node_type n \<noteq> JString ''group''"
      by auto
    have t: "isTextNode n \<longleftrightarrow> (\<exists>s. node_text n = JString s)"
      using falsy tags by (simp add: isTextNode_def str)
    have l: "isLinkNode n \<longleftrightarrow> (\<exists>s. node_url n = JString s)"
      using falsy tags by (simp add: isLinkNode_def str)
    have g: "isGroupNode n \<longleftrightarrow>
            node_text n = JUndefined \<and> node_file n = JUndefined \<and> node_url n = JUndefined"
      using falsy tags by (simp add: isGroupNode_def undef)
    have f: "isFileNode n \<longleftrightarrow>
            (\<exists>s. node_file n = JString s)
            \<or> (\<exists>fs p. node_file n = JObject fs \<and> map_of fs ''path'' = Some (JString p))"
      using falsy tags obj [of "node_file n"] by (auto simp: isFileNode_def str)
    from t f l g show
      "(isTextNode n \<longleftrightarrow> (\<exists>s. node_text n = JString s))
       \<and> (isFileNode n \<longleftrightarrow>
            (\<exists>s. node_file n = JString s)
            \<or> (\<exists>fs p. node_file n = JObject fs \<and> map_of fs ''path'' = Some (JString p)))
       \<and> (isLinkNode n \<longleftrightarrow> (\<exists>s. node_url n = JString s))
       \<and> (isGroupNode n \<longleftrightarrow>
            node_text n = JUndefined \<and> node_file n = JUndefined \<and> node_url n = JUndefined)"
      by blast
  qed
  from tagged other structural show ?thesis by blast
qed

theorem node_guards_classification_witness:
  "isTextNode (node_at ''a'' 0 0)
   \<and> \<not> isFileNode (node_at ''a'' 0 0)
   \<and> \<not> isLinkNode (node_at ''a'' 0 0)
   \<and> \<not> isGroupNode (node_at ''a'' 0 0)
   \<and> isFileNode ((node_at ''a'' 0 0) \<lparr> node_type := JString ''file'' \<rparr>)
   \<and> isLinkNode ((node_at ''a'' 0 0) \<lparr> node_type := JString ''link'' \<rparr>)
   \<and> isGroupNode ((node_at ''a'' 0 0) \<lparr> node_type := JString ''group'' \<rparr>)
   \<and> \<not> isTextNode ((node_at ''a'' 0 0) \<lparr> node_type := JString ''file'' \<rparr>)
   \<and> isFileNode (untyped_node JUndefined (JObject [(''path'', JString ''notes/a.md'')]) JUndefined
                   :: mock_state canvas_node)
   \<and> \<not> isTextNode (untyped_node JUndefined (JObject [(''path'', JString ''notes/a.md'')]) JUndefined
                   :: mock_state canvas_node)
   \<and> isGroupNode (untyped_node JUndefined JUndefined JUndefined :: mock_state canvas_node)"
  using
    node_guards_classification [of "node_at ''a'' 0 0"]
    node_guards_classification [of "(node_at ''a'' 0 0) \<lparr> node_type := JString ''file'' \<rparr>"]
    node_guards_classification [of "(node_at ''a'' 0 0) \<lparr> node_type := JString ''link'' \<rparr>"]
    node_guards_classification [of "(node_at ''a'' 0 0) \<lparr> node_type := JString ''group'' \<rparr>"]
    node_guards_classification
      [of "untyped_node JUndefined (JObject [(''path'', JString ''notes/a.md'')]) JUndefined
             :: mock_state canvas_node"]
    node_guards_classification
      [of "untyped_node JUndefined JUndefined JUndefined :: mock_state canvas_node"]
  by (simp add: node_at_def text_node_def text_node_of_def untyped_node_def)

text \<open>
  The claim as stated fails at a node whose \<^verbatim>\<open>type\<close> field is present and is the empty
  string: it differs from \<^verbatim>\<open>'text'\<close>, and the structural fallback still classifies the
  node as a text node.
\<close>

theorem node_guards_classification_counterexample:
  "node_type empty_type_node = JString []
   \<and> node_type empty_type_node \<noteq> JUndefined
   \<and> node_type empty_type_node \<noteq> JString ''text''
   \<and> isTextNode empty_type_node"
  by (simp add: empty_type_node_def untyped_node_def isTextNode_def)

text \<open>
  C9 (as amended). When the host's \<^verbatim>\<open>getActiveViewOfType\<close> and the active view's
  \<^verbatim>\<open>getViewType\<close> return normally, \<^verbatim>\<open>getActiveCanvas\<close> returns the active view exactly
  when there is one and its type tag is \<^verbatim>\<open>'canvas'\<close>, and \<^verbatim>\<open>null\<close> otherwise, the case
  of no active view included (then \<^verbatim>\<open>getViewType\<close> is not called). The operation has no
  \<^verbatim>\<open>try\<close> of its own: when \<^verbatim>\<open>getActiveViewOfType\<close> is missing or throws, or the active
  view's \<^verbatim>\<open>getViewType\<close> is missing or throws, the error reaches the caller.
\<close>

theorem getActiveCanvas_spec:
  fixes ws :: "('h, 'c) workspace" and w :: "('h, 'n) world"
  shows
  "(getActiveViewOfType ws = Some g \<and> g (host w) = (Inr None, h1) \<longrightarrow>
      getActiveCanvas ws w =
        (Inr None, \<lparr> host = h1, trace = trace w @ [HostGetActiveViewOfType] \<rparr>))
   \<and> (getActiveViewOfType ws = Some g \<and> g (host w) = (Inr (Some v), h1)
        \<and> getViewType v = Some t \<and> t h1 = (Inr tag, h2) \<longrightarrow>
      getActiveCanvas ws w =
        (Inr (if tag = JString ''canvas'' then Some v else None),
         \<lparr> host = h2, trace = trace w @ [HostGetActiveViewOfType, ViewGetViewType] \<rparr>))
   \<and> (getActiveViewOfType ws = None \<longrightarrow>
      getActiveCanvas ws w =
        (Inl (JsTypeError ''workspace.getActiveViewOfType is not a function''), w))
   \<and> (getActiveViewOfType ws = Some g \<and> g (host w) = (Inl err, h1) \<longrightarrow>
      getActiveCanvas ws w =
        (Inl err, \<lparr> host = h1, trace = trace w @ [HostGetActiveViewOfType] \<rparr>))
   \<and> (getActiveViewOfType ws = Some g \<and> g (host w) = (Inr (Some v), h1)
        \<and> getViewType v = None \<longrightarrow>
      getActiveCanvas ws w =
        (Inl (JsTypeError ''view.getViewType is not a function''),
         \<lparr> host = h1, trace = trace w @ [HostGetActiveViewOfType] \<rparr>))
   \<and> (getActiveViewOfType ws = Some g \<and> g (host w) = (Inr (Some v), h1)
        \<and> getViewType v = Some t \<and> t h1 = (Inl err, h2) \<longrightarrow>
      getActiveCanvas ws w =
        (Inl err,
         \<lparr> host = h2, trace = trace w @ [HostGetActiveViewOfType, ViewGetViewType] \<rparr>))"
  by (simp add: getActiveCanvas_def isCanvasView_def prog_defs)

theorem getActiveCanvas_spec_witness:
  "getActiveCanvas (workspace_with (Some (view_of_type ''canvas''))) initial_world
     = (Inr (Some (view_of_type ''canvas'')),
        \<lparr> host = empty_data, trace = [HostGetActiveViewOfType, ViewGetViewType] \<rparr>)
   \<and> getActiveCanvas (workspace_with (Some (view_of_type ''markdown''))) initial_world
     = (Inr None,
        \<lparr> host = empty_data, trace = [HostGetActiveViewOfType, ViewGetViewType] \<rparr>)
   \<and> getActiveCanvas (workspace_with None) initial_world
     = (Inr None, \<lparr> host = empty_data, trace = [HostGetActiveViewOfType] \<rparr>)"
  using
    getActiveCanvas_spec
      [where ws = "workspace_with (Some (view_of_type ''canvas''))" and w = initial_world
         and g = "\<lambda>h. (Inr (Some (view_of_type ''canvas'')), h)"
         and v = "view_of_type ''canvas''" and ?h1.0 = empty_data
         and t = "\<lambda>h. (Inr (JString ''canvas''), h)" and tag = "JString ''canvas''"
         and ?h2.0 = empty_data]
    getActiveCanvas_spec
      [where ws = "workspace_with (Some (view_of_type ''markdown''))" and w = initial_world
         and g = "\<lambda>h. (Inr (Some (view_of_type ''markdown'')), h)"
         and v = "view_of_type ''markdown''" and ?h1.0 = empty_data
         and t = "\<lambda>h. (Inr (JString ''markdown''), h)" and tag = "JString ''markdown''"
         and ?h2.0 = empty_data]
    getActiveCanvas_spec
      [where ws = "workspace_with None" and w = initial_world
         and g = "\<lambda>h. (Inr None, h)" and ?h1.0 = empty_data]
  by (simp add: workspace_with_def view_of_type_def initial_world_def)

text \<open>
  The claim as stated fails where a host call fails: at a workspace whose
  \<^verbatim>\<open>getActiveViewOfType\<close> throws, and at one whose active view has no \<^verbatim>\<open>getViewType\<close>
  method, \<^verbatim>\<open>getActiveCanvas\<close> throws.
\<close>

theorem getActiveCanvas_spec_counterexample:
  "getActiveCanvas throwing_workspace initial_world
     = (Inl (HostError ''workspace is not ready''),
        \<lparr> host = empty_data, trace = [HostGetActiveViewOfType] \<rparr>)
   \<and> getActiveCanvas (workspace_with (Some view_without_type)) initial_world
     = (Inl (JsTypeError ''view.getViewType is not a function''),
        \<lparr> host = empty_data, trace = [HostGetActiveViewOfType] \<rparr>)"
  by (simp add: getActiveCanvas_def isCanvasView_def prog_defs throwing_workspace_def
        workspace_with_def view_without_type_def initial_world_def)

text \<open>
  C10. The structural guards are not mutually exclusive. A node without a discriminator
  whose \<^verbatim>\<open>text\<close> and \<^verbatim>\<open>url\<close> are both strings is a text node and a link node; one whose
  \<^verbatim>\<open>text\<close> and \<^verbatim>\<open>file\<close> are both strings is a text node and a file node. Without a
  discriminator each guard reads its own content field only.
\<close>

theorem guards_not_mutually_exclusive:
  fixes n :: "'h canvas_node"
  shows
  "(\<exists>m :: 'h canvas_node. node_type m = JUndefined \<and> isTextNode m \<and> isLinkNode m)
   \<and> (\<exists>m :: 'h canvas_node. node_type m = JUndefined \<and> isTextNode m \<and> isFileNode m)
   \<and> isTextNode (untyped_node (JString t) JUndefined (JString u) :: 'h canvas_node)
   \<and> isLinkNode (untyped_node (JString t) JUndefined (JString u) :: 'h canvas_node)
   \<and> isTextNode (untyped_node (JString t) (JString f) JUndefined :: 'h canvas_node)
   \<and> isFileNode (untyped_node (JString t) (JString f) JUndefined :: 'h canvas_node)
   \<and> (isTextNode (n\<lparr> node_type := JUndefined \<rparr>) \<longleftrightarrow> typeof (node_text n) = TString)
   \<and> (isLinkNode (n\<lparr> node_type := JUndefined \<rparr>) \<longleftrightarrow> typeof (node_url n) = TString)
   \<and> isFileNode (n\<lparr> node_type := JUndefined, node_file := JString f \<rparr>)"
proof -
  have both_link:
    "node_type (untyped_node (JString t) JUndefined (JString u) :: 'h canvas_node) = JUndefined
     \<and> isTextNode (untyped_node (JString t) JUndefined (JString u) :: 'h canvas_node)
     \<and> isLinkNode (untyped_node (JString t) JUndefined (JString u) :: 'h canvas_node)"
    by (simp add: untyped_node_def isTextNode_def isLinkNode_def)
  have both_file:
    "node_type (untyped_node (JString t) (JString f) JUndefined :: 'h canvas_node) = JUndefined
     \<and> isTextNode (untyped_node (JString t) (JString f) JUndefined :: 'h canvas_node)
     \<and> isFileNode (untyped_node (JString t) (JString f) JUndefined :: 'h canvas_node)"
    by (simp add: untyped_node_def isTextNode_def isFileNode_def)
  have own_field:
    "(isTextNode (n\<lparr> node_type := JUndefined \<rparr>) \<longleftrightarrow> typeof (node_text n) = TString)
     \<and> (isLinkNode (n\<lparr> node_type := JUndefined \<rparr>) \<longleftrightarrow> typeof (node_url n) = TString)
     \<and> isFileNode (n\<lparr> node_type := JUndefined, node_file := JString f \<rparr>)"
    by (simp add: isTextNode_def isLinkNode_def isFileNode_def)
  from both_link both_file own_field show ?thesis by blast
qed

end
